theory Spec2Isabelle
  imports Main "HOL-Library.Char_ord" "HOL-Library.List_Lexorder"
begin

section \<open>Translation consistency checker: key extraction and reporting\<close>

text \<open>
  The two scripts \<^verbatim>\<open>check-translations-detailed.py\<close> (exhaustive mode) and
  \<^verbatim>\<open>check-translations.py\<close> (strict mode) are embedded function by function.
  A Python \<^verbatim>\<open>str\<close> is a \<^typ>\<open>string\<close>; a character stands for its code point, so
  the model covers text whose code points are below 256. A Python set of keys is a
  \<^typ>\<open>string set\<close>, the dictionary \<^verbatim>\<open>all_keys\<close> is a map, the ordered dictionary
  \<^verbatim>\<open>languages\<close> is an association list. Every \<^verbatim>\<open>print\<close> call is one value of
  the datatype of report lines, and a function that prints returns the lines it printed.
  A Python exception is a value \<open>Inl e\<close>.
\<close>

subsection \<open>Library functions used by the scripts\<close>

datatype py_error = IndexError | KeyError

text \<open>
  \<^verbatim>\<open>str.isspace\<close>, which is also the class \<^verbatim>\<open>\s\<close> of a Unicode pattern:
  the code points 9 to 13, 28 to 32, 133 and 160.
\<close>

definition isspace :: "char \<Rightarrow> bool" where
  "isspace c =
     (let n = (of_char c :: nat)
      in (9 \<le> n \<and> n \<le> 13) \<or> (28 \<le> n \<and> n \<le> 32) \<or> n = 133 \<or> n = 160)"

text \<open>
  \<^verbatim>\<open>str.isalnum\<close> on the code points below 256: the ASCII digits and letters, and in
  the Latin-1 block the letters, the superscript digits and the vulgar fractions.
\<close>

definition isalnum :: "char \<Rightarrow> bool" where
  "isalnum c =
     (let n = (of_char c :: nat)
      in (48 \<le> n \<and> n \<le> 57) \<or> (65 \<le> n \<and> n \<le> 90) \<or> (97 \<le> n \<and> n \<le> 122)
         \<or> n = 170 \<or> n = 178 \<or> n = 179 \<or> n = 181 \<or> n = 185 \<or> n = 186
         \<or> (188 \<le> n \<and> n \<le> 190) \<or> (192 \<le> n \<and> n \<le> 214)
         \<or> (216 \<le> n \<and> n \<le> 246) \<or> (248 \<le> n \<and> n \<le> 255))"

text \<open>The class \<^verbatim>\<open>\w\<close> of a Unicode pattern: alphanumeric or the underscore.\<close>

definition isword :: "char \<Rightarrow> bool" where
  "isword c = (isalnum c \<or> c = CHR ''_'')"

text \<open>\<^verbatim>\<open>s.strip()\<close>: whitespace removed at both ends.\<close>

definition strip :: "string \<Rightarrow> string" where
  "strip s = rev (dropWhile isspace (rev (dropWhile isspace s)))"

text \<open>\<^verbatim>\<open>s.startswith(p)\<close>.\<close>

definition startswith :: "string \<Rightarrow> string \<Rightarrow> bool" where
  "startswith s p = (take (length p) s = p)"

text \<open>\<^verbatim>\<open>text.split('\n')\<close>: the pieces between newlines, at least one piece.\<close>

fun split_newline :: "string \<Rightarrow> string list" where
  "split_newline [] = [[]]"
| "split_newline (c # cs) =
     (if c = CHR ''\<newline>'' then [] # split_newline cs
      else (case split_newline cs of
              [] \<Rightarrow> [[c]]
            | l # ls \<Rightarrow> (c # l) # ls))"

text \<open>\<^verbatim>\<open>sep.join(parts)\<close>.\<close>

fun join :: "string \<Rightarrow> string list \<Rightarrow> string" where
  "join sep [] = []"
| "join sep [x] = x"
| "join sep (x # y # ys) = x @ sep @ join sep (y # ys)"

text \<open>\<^verbatim>\<open>lst.pop()\<close> removes the last element and raises IndexError on an empty list.\<close>

fun list_pop :: "'a list \<Rightarrow> py_error + 'a list" where
  "list_pop [] = Inl IndexError"
| "list_pop (x # xs) = Inr (butlast (x # xs))"

subsection \<open>The two regular expressions\<close>

text \<open>
  \<^verbatim>\<open>re.match(r'^\s*(\w+):\s*(.*)$', line)\<close> on a line without a newline (the lines
  come from \<^const>\<open>split_newline\<close>). The classes \<^verbatim>\<open>\s\<close> and \<^verbatim>\<open>\w\<close> are disjoint
  and the colon is in neither, so each greedy repetition takes its longest run and
  backtracking finds nothing else. The result holds group 1 and group 2.
\<close>

definition key_match :: "string \<Rightarrow> (string \<times> string) option" where
  "key_match line =
     (let r1 = dropWhile isspace line;
          key_name = takeWhile isword r1;
          r2 = dropWhile isword r1
      in if key_name \<noteq> [] \<and> startswith r2 '':''
         then Some (key_name, dropWhile isspace (drop 1 r2))
         else None)"

text \<open>
  The greedy \<^verbatim>\<open>.*\<close> followed by \<^verbatim>\<open>});\<close>, under DOTALL: the position of the close
  brace of the last \<^verbatim>\<open>};\<close> of the text, if there is one.
\<close>

fun last_close :: "string \<Rightarrow> nat option" where
  "last_close (a # b # cs) =
     (case last_close (b # cs) of
        Some k \<Rightarrow> Some (Suc k)
      | None \<Rightarrow> (if a = CHR ''}'' \<and> b = CHR '';'' then Some 0 else None))"
| "last_close _ = None"

text \<open>
  The pattern \<^verbatim>\<open>export const \w+: TranslationDict = ({.*});\<close> tried at the start of
  \<open>s\<close>; the result is group 1, from the open brace to the last close brace that a
  semicolon follows.
\<close>

definition match_decl_at :: "string \<Rightarrow> string option" where
  "match_decl_at s =
     (if startswith s ''export const ''
      then (let r = drop (length ''export const '') s;
                w = takeWhile isword r;
                r2 = dropWhile isword r
            in if w \<noteq> [] \<and> startswith r2 '': TranslationDict = {''
               then (let body = drop (length '': TranslationDict = {'') r2
                     in case last_close body of
                          None \<Rightarrow> None
                        | Some k \<Rightarrow> Some (CHR ''{'' # take (Suc k) body))
               else None)
      else None)"

text \<open>\<^verbatim>\<open>re.search\<close>: the leftmost position where the pattern matches.\<close>

fun search_decl :: "string \<Rightarrow> string option" where
  "search_decl [] = match_decl_at []"
| "search_decl (c # cs) =
     (case match_decl_at (c # cs) of
        Some g \<Rightarrow> Some g
      | None \<Rightarrow> search_decl cs)"

subsection \<open>The extractor of check-translations-detailed.py\<close>

text \<open>
  The loop \<^verbatim>\<open>for _ in range(close_braces): if current_path: current_path.pop()\<close>.
\<close>

fun pop_braces :: "nat \<Rightarrow> string list \<Rightarrow> py_error + string list" where
  "pop_braces 0 current_path = Inr current_path"
| "pop_braces (Suc n) current_path =
     (if current_path \<noteq> []
      then (case list_pop current_path of
              Inl e \<Rightarrow> Inl e
            | Inr p \<Rightarrow> pop_braces n p)
      else pop_braces n current_path)"

text \<open>
  The body of the loop over the lines. The state is the local \<^verbatim>\<open>current_path\<close> and
  the set \<^verbatim>\<open>keys\<close> of the enclosing function.
\<close>

definition process_line_detailed ::
  "string \<Rightarrow> string list \<times> string set \<Rightarrow> py_error + string list \<times> string set" where
  "process_line_detailed line st =
     (let (current_path, keys) = st;
          stripped = strip line
      in if stripped = [] \<or> startswith stripped ''//'' then Inr st
         else
           (let close_braces = count_list line (CHR ''}'');
                (current_path, keys) =
                  (case key_match line of
                     Some (key_name, g2) \<Rightarrow>
                       (let value_part = strip g2;
                            full_key = join ''.'' (current_path @ [key_name])
                        in if startswith value_part ''{''
                           then (current_path @ [key_name], keys)
                           else (current_path, insert full_key keys))
                   | None \<Rightarrow> (current_path, keys))
            in if close_braces > 0
               then (case pop_braces close_braces current_path of
                       Inl e \<Rightarrow> Inl e
                     | Inr p \<Rightarrow> Inr (p, keys))
               else Inr (current_path, keys)))"

fun lines_loop_detailed ::
  "string list \<Rightarrow> string list \<times> string set \<Rightarrow> py_error + string list \<times> string set" where
  "lines_loop_detailed [] st = Inr st"
| "lines_loop_detailed (line # lines) st =
     (case process_line_detailed line st of
        Inl e \<Rightarrow> Inl e
      | Inr st' \<Rightarrow> lines_loop_detailed lines st')"

text \<open>
  \<^verbatim>\<open>extract_nested_keys(text)\<close> starts from an empty path; \<open>keys\<close> is the set of the
  enclosing function at the call, and the result is that set after the call. The
  parameter \<^verbatim>\<open>prefix\<close> is never read and is left out.
\<close>

definition extract_nested_keys_detailed :: "string \<Rightarrow> string set \<Rightarrow> py_error + string set" where
  "extract_nested_keys_detailed text keys =
     (case lines_loop_detailed (split_newline text) ([], keys) of
        Inl e \<Rightarrow> Inl e
      | Inr (current_path, keys') \<Rightarrow> Inr keys')"

text \<open>
  \<^verbatim>\<open>extract_keys_from_ts\<close>, from the content that was read from the file; opening
  and decoding the file are not part of the model.
\<close>

definition extract_keys_from_ts_detailed :: "string \<Rightarrow> py_error + string set" where
  "extract_keys_from_ts_detailed content =
     (case search_decl content of
        None \<Rightarrow> Inr {}
      | Some obj_content \<Rightarrow> extract_nested_keys_detailed obj_content {})"

subsection \<open>The extractor of check-translations.py\<close>

text \<open>
  The strict script's extractor differs from the other one in three places: it compiles
  a pattern \<^verbatim>\<open>key_pattern\<close> that it never uses, it keeps a list \<^verbatim>\<open>stack\<close> that
  stays empty, and it counts the open braces of each line. The state of the loop holds
  \<^verbatim>\<open>stack\<close> too.
\<close>

definition process_line_strict ::
  "string \<Rightarrow> string list \<times> string list \<times> string set
     \<Rightarrow> py_error + string list \<times> string list \<times> string set" where
  "process_line_strict line st =
     (let (stack, current_path, keys) = st;
          stripped = strip line
      in if stripped = [] \<or> startswith stripped ''//'' then Inr st
         else
           (let open_braces = count_list line (CHR ''{'');
                close_braces = count_list line (CHR ''}'');
                (current_path, keys) =
                  (case key_match line of
                     Some (key_name, g2) \<Rightarrow>
                       (let value_part = strip g2;
                            full_key = join ''.'' (current_path @ [key_name])
                        in if startswith value_part ''{''
                           then (current_path @ [key_name], keys)
                           else (current_path, insert full_key keys))
                   | None \<Rightarrow> (current_path, keys))
            in if close_braces > 0
               then (case pop_braces close_braces current_path of
                       Inl e \<Rightarrow> Inl e
                     | Inr p \<Rightarrow> Inr (stack, p, keys))
               else Inr (stack, current_path, keys)))"

fun lines_loop_strict ::
  "string list \<Rightarrow> string list \<times> string list \<times> string set
     \<Rightarrow> py_error + string list \<times> string list \<times> string set" where
  "lines_loop_strict [] st = Inr st"
| "lines_loop_strict (line # lines) st =
     (case process_line_strict line st of
        Inl e \<Rightarrow> Inl e
      | Inr st' \<Rightarrow> lines_loop_strict lines st')"

definition extract_nested_keys_strict :: "string \<Rightarrow> string set \<Rightarrow> py_error + string set" where
  "extract_nested_keys_strict text keys =
     (case lines_loop_strict (split_newline text) ([], [], keys) of
        Inl e \<Rightarrow> Inl e
      | Inr (stack, current_path, keys') \<Rightarrow> Inr keys')"

definition extract_keys_from_ts_strict :: "string \<Rightarrow> py_error + string set" where
  "extract_keys_from_ts_strict content =
     (case search_decl content of
        None \<Rightarrow> Inr {}
      | Some obj_content \<Rightarrow> extract_nested_keys_strict obj_content {})"

subsection \<open>Configuration and report lines\<close>

definition languages :: "(string \<times> string) list" where
  "languages =
     [(''en'', ''English''), (''de'', ''German''), (''es'', ''Spanish''),
      (''fr'', ''French''), (''zh'', ''Chinese'')]"

text \<open>\<^verbatim>\<open>locale_dir / f'{code}.ts'\<close>.\<close>

definition locale_file :: "string \<Rightarrow> string" where
  "locale_file code = ''src/i18n/locales/'' @ code @ ''.ts''"

text \<open>
  One constructor for each \<^verbatim>\<open>print\<close> call of the two scripts, with the values the
  call formats.
\<close>

datatype report_line =
    Rule80
  | Dashes80
  | Blank
  | Title_detailed
  | Title_strict
  | Key_count string string nat
  | Keys_found string string nat
  | File_not_found string string
  | Using_reference nat
  | Lang_header string string
  | Missing_header nat
  | Missing_item nat string
  | All_keys_present
  | Summary_header
  | Summary_line bool string string nat
  | All_complete
  | Total_missing nat
  | Inconsistencies string string
  | Missing_in nat string
  | Missing_key string
  | Extra_in nat string
  | Extra_key string
  | And_more nat
  | All_match string string
  | Success
  | Failure
  | Recommendation

subsection \<open>main of check-translations-detailed.py\<close>

text \<open>
  The file system is a map from paths to contents: a path that is not in its domain does
  not exist. The body of the first loop yields the line it prints and the key set it
  stores for the language; the loop fills \<^verbatim>\<open>all_keys\<close>.
\<close>

definition load_language_detailed ::
  "(string \<rightharpoonup> string) \<Rightarrow> string \<Rightarrow> string \<Rightarrow> py_error + report_line \<times> string set" where
  "load_language_detailed fs code name =
     (case fs (locale_file code) of
        Some content \<Rightarrow>
          (case extract_keys_from_ts_detailed content of
             Inl e \<Rightarrow> Inl e
           | Inr keys \<Rightarrow> Inr (Key_count name code (card keys), keys))
      | None \<Rightarrow> Inr (File_not_found name code, {}))"

fun load_keys_detailed ::
  "(string \<rightharpoonup> string) \<Rightarrow> (string \<times> string) list \<Rightarrow> (string \<rightharpoonup> string set)
     \<Rightarrow> py_error + report_line list \<times> (string \<rightharpoonup> string set)" where
  "load_keys_detailed fs [] all_keys = Inr ([], all_keys)"
| "load_keys_detailed fs ((code, name) # rest) all_keys =
     (case load_language_detailed fs code name of
        Inl e \<Rightarrow> Inl e
      | Inr (line, keys) \<Rightarrow>
          (case load_keys_detailed fs rest (all_keys(code \<mapsto> keys)) of
             Inl e \<Rightarrow> Inl e
           | Inr (out, ak) \<Rightarrow> Inr (line # out, ak)))"

text \<open>
  The listing of one language: \<^verbatim>\<open>missing\<close> is the sorted list, and
  \<^verbatim>\<open>enumerate(missing, 1)\<close> numbers it from 1.
\<close>

definition missing_listing_detailed :: "string set \<Rightarrow> string set \<Rightarrow> report_line list" where
  "missing_listing_detailed reference_keys lang_keys =
     (let missing = sorted_list_of_set (reference_keys - lang_keys)
      in if missing \<noteq> []
         then Missing_header (length missing)
                # map (\<lambda>(i, key). Missing_item i key) (List.enumerate 1 missing)
         else [All_keys_present])"

definition lang_section_detailed ::
  "string \<Rightarrow> string \<Rightarrow> string set \<Rightarrow> string set \<Rightarrow> report_line list" where
  "lang_section_detailed name code reference_keys lang_keys =
     [Lang_header name code, Dashes80]
       @ missing_listing_detailed reference_keys lang_keys
       @ [Blank, Rule80, Blank]"

text \<open>\<^verbatim>\<open>all_keys[code]\<close> raises KeyError for a code that is not in the dictionary.\<close>

fun detail_loop ::
  "(string \<times> string) list \<Rightarrow> string set \<Rightarrow> (string \<rightharpoonup> string set)
     \<Rightarrow> py_error + report_line list" where
  "detail_loop [] reference_keys all_keys = Inr []"
| "detail_loop ((code, name) # rest) reference_keys all_keys =
     (if code = ''en'' then detail_loop rest reference_keys all_keys
      else (case all_keys code of
              None \<Rightarrow> Inl KeyError
            | Some lang_keys \<Rightarrow>
                (case detail_loop rest reference_keys all_keys of
                   Inl e \<Rightarrow> Inl e
                 | Inr out \<Rightarrow>
                     Inr (lang_section_detailed name code reference_keys lang_keys @ out))))"

fun summary_loop ::
  "(string \<times> string) list \<Rightarrow> string set \<Rightarrow> (string \<rightharpoonup> string set) \<Rightarrow> nat
     \<Rightarrow> py_error + report_line list \<times> nat" where
  "summary_loop [] reference_keys all_keys total_missing = Inr ([], total_missing)"
| "summary_loop ((code, name) # rest) reference_keys all_keys total_missing =
     (if code = ''en'' then summary_loop rest reference_keys all_keys total_missing
      else (case all_keys code of
              None \<Rightarrow> Inl KeyError
            | Some lang_keys \<Rightarrow>
                (let missing_count = card (reference_keys - lang_keys);
                     total_missing = total_missing + missing_count;
                     status = (missing_count = 0)
                 in case summary_loop rest reference_keys all_keys total_missing of
                      Inl e \<Rightarrow> Inl e
                    | Inr (out, total_missing') \<Rightarrow>
                        Inr (Summary_line status name code missing_count # out,
                             total_missing'))))"

text \<open>
  The part of \<^verbatim>\<open>main\<close> after the first loop, as a function of \<^verbatim>\<open>all_keys\<close>: the
  lines printed and the value returned, which is the exit status of the process.
\<close>

definition report_detailed ::
  "(string \<rightharpoonup> string set) \<Rightarrow> py_error + report_line list \<times> nat" where
  "report_detailed all_keys =
     (let reference_keys = (case all_keys ''en'' of None \<Rightarrow> {} | Some ks \<Rightarrow> ks)
      in case detail_loop languages reference_keys all_keys of
           Inl e \<Rightarrow> Inl e
         | Inr out1 \<Rightarrow>
             (case summary_loop languages reference_keys all_keys 0 of
                Inl e \<Rightarrow> Inl e
              | Inr (out2, total_missing) \<Rightarrow>
                  (if total_missing = 0
                   then Inr ([Blank, Rule80, Blank] @ out1 @ [Summary_header, Dashes80]
                               @ out2 @ [Blank, All_complete], 0)
                   else Inr ([Blank, Rule80, Blank] @ out1 @ [Summary_header, Dashes80]
                               @ out2 @ [Blank, Total_missing total_missing], 1))))"

definition main_detailed ::
  "(string \<rightharpoonup> string) \<Rightarrow> py_error + report_line list \<times> nat" where
  "main_detailed fs =
     (case load_keys_detailed fs languages Map.empty of
        Inl e \<Rightarrow> Inl e
      | Inr (out0, all_keys) \<Rightarrow>
          (case report_detailed all_keys of
             Inl e \<Rightarrow> Inl e
           | Inr (out, status) \<Rightarrow>
               Inr ([Rule80, Title_detailed, Rule80, Blank] @ out0 @ out, status)))"

subsection \<open>main of check-translations.py\<close>

definition load_language_strict ::
  "(string \<rightharpoonup> string) \<Rightarrow> string \<Rightarrow> string \<Rightarrow> py_error + report_line \<times> string set" where
  "load_language_strict fs code name =
     (case fs (locale_file code) of
        Some content \<Rightarrow>
          (case extract_keys_from_ts_strict content of
             Inl e \<Rightarrow> Inl e
           | Inr keys \<Rightarrow> Inr (Keys_found name code (card keys), keys))
      | None \<Rightarrow> Inr (File_not_found name code, {}))"

fun load_keys_strict ::
  "(string \<rightharpoonup> string) \<Rightarrow> (string \<times> string) list \<Rightarrow> (string \<rightharpoonup> string set)
     \<Rightarrow> py_error + report_line list \<times> (string \<rightharpoonup> string set)" where
  "load_keys_strict fs [] all_keys = Inr ([], all_keys)"
| "load_keys_strict fs ((code, name) # rest) all_keys =
     (case load_language_strict fs code name of
        Inl e \<Rightarrow> Inl e
      | Inr (line, keys) \<Rightarrow>
          (case load_keys_strict fs rest (all_keys(code \<mapsto> keys)) of
             Inl e \<Rightarrow> Inl e
           | Inr (out, ak) \<Rightarrow> Inr (line # out, ak)))"

text \<open>
  The listing of one set of keys: the first 20 of the sorted set, and the count of the
  rest when there are more.
\<close>

definition truncated_listing ::
  "(string \<Rightarrow> report_line) \<Rightarrow> string set \<Rightarrow> report_line list" where
  "truncated_listing item ks =
     map item (take 20 (sorted_list_of_set ks))
       @ (if card ks > 20 then [And_more (card ks - 20)] else [])"

text \<open>
  The two set differences at the head of the loop body: \<^verbatim>\<open>missing\<close> and
  \<^verbatim>\<open>extra\<close>.
\<close>

definition key_diff :: "string set \<Rightarrow> string set \<Rightarrow> string set \<times> string set" where
  "key_diff reference_keys lang_keys =
     (reference_keys - lang_keys, lang_keys - reference_keys)"

text \<open>
  The body of the loop over the languages, for a language other than the reference: the
  lines printed and the new value of \<^verbatim>\<open>has_issues\<close>.
\<close>

definition lang_section_strict ::
  "string \<Rightarrow> string \<Rightarrow> string set \<Rightarrow> string set \<Rightarrow> bool \<Rightarrow> report_line list \<times> bool" where
  "lang_section_strict name code reference_keys lang_keys has_issues =
     (let (missing, extra) = key_diff reference_keys lang_keys
      in if missing \<noteq> {} \<or> extra \<noteq> {}
         then ([Dashes80, Inconsistencies name code, Dashes80]
                 @ (if missing \<noteq> {}
                    then Missing_in (card missing) name # truncated_listing Missing_key missing
                    else [])
                 @ (if extra \<noteq> {}
                    then Extra_in (card extra) name # truncated_listing Extra_key extra
                    else [])
                 @ [Blank], True)
         else ([All_match name code], has_issues))"

fun strict_loop ::
  "(string \<times> string) list \<Rightarrow> string set \<Rightarrow> (string \<rightharpoonup> string set) \<Rightarrow> bool
     \<Rightarrow> py_error + report_line list \<times> bool" where
  "strict_loop [] reference_keys all_keys has_issues = Inr ([], has_issues)"
| "strict_loop ((code, name) # rest) reference_keys all_keys has_issues =
     (if code = ''en'' then strict_loop rest reference_keys all_keys has_issues
      else (case all_keys code of
              None \<Rightarrow> Inl KeyError
            | Some lang_keys \<Rightarrow>
                (let (out, has_issues) =
                       lang_section_strict name code reference_keys lang_keys has_issues
                 in case strict_loop rest reference_keys all_keys has_issues of
                      Inl e \<Rightarrow> Inl e
                    | Inr (out', h) \<Rightarrow> Inr (out @ out', h))))"

definition report_strict ::
  "(string \<rightharpoonup> string set) \<Rightarrow> py_error + report_line list \<times> nat" where
  "report_strict all_keys =
     (let reference_keys = (case all_keys ''en'' of None \<Rightarrow> {} | Some ks \<Rightarrow> ks)
      in case strict_loop languages reference_keys all_keys False of
           Inl e \<Rightarrow> Inl e
         | Inr (out, has_issues) \<Rightarrow>
             (if \<not> has_issues
              then Inr ([Blank, Using_reference (card reference_keys), Blank] @ out
                          @ [Rule80, Success], 0)
              else Inr ([Blank, Using_reference (card reference_keys), Blank] @ out
                          @ [Rule80, Failure, Recommendation], 1)))"

definition main_strict ::
  "(string \<rightharpoonup> string) \<Rightarrow> py_error + report_line list \<times> nat" where
  "main_strict fs =
     (case load_keys_strict fs languages Map.empty of
        Inl e \<Rightarrow> Inl e
      | Inr (out0, all_keys) \<Rightarrow>
          (case report_strict all_keys of
             Inl e \<Rightarrow> Inl e
           | Inr (out, status) \<Rightarrow>
               Inr ([Rule80, Title_strict, Rule80, Blank] @ out0 @ out, status)))"

subsection \<open>Inputs of the scenarios\<close>

text \<open>The five lines of the first scenario, and a file that declares them.\<close>

definition scenario1_snippet :: string where
  "scenario1_snippet =
     ''greeting: 'hi'\<newline>menu: {\<newline>  file: 'File'\<newline>  edit: 'Edit'\<newline>}''"

definition scenario1_file :: string where
  "scenario1_file =
     ''export const en: TranslationDict = {\<newline>'' @ scenario1_snippet @ ''\<newline>};''"

text \<open>A file with a placeholder in braces inside a value.\<close>

definition placeholder_file :: string where
  "placeholder_file =
     ''export const en: TranslationDict = {\<newline>  a: {\<newline>    t: '{n}',\<newline>    b: {\<newline>      c: 'z',\<newline>    },\<newline>  },\<newline>  b: 'y',\<newline>};''"

definition placeholder_lines :: "string list" where
  "placeholder_lines =
     [''{'', ''  a: {'', ''    t: '{n}','', ''    b: {'', ''      c: 'z','', ''    },'',
      ''  },'', ''  b: 'y','', ''}'']"

text \<open>A file in which the key a opens an object and is then assigned a string.\<close>

definition repeated_key_file :: string where
  "repeated_key_file =
     ''export const en: TranslationDict = {\<newline>  a: {\<newline>  },\<newline>  a: 'x',\<newline>};''"

definition repeated_key_lines :: "string list" where
  "repeated_key_lines = [''{'', ''  a: {'', ''  },'', ''  a: 'x','', ''}'']"

text \<open>A reference set of 22 keys, more than one listing of the strict script shows.\<close>

definition many_keys :: "string set" where
  "many_keys =
     {''v'', ''u'', ''t'', ''s'', ''r'', ''q'', ''p'', ''o'', ''n'', ''m'', ''l'', ''k'',
      ''j'', ''i'', ''h'', ''g'', ''f'', ''e'', ''d'', ''c'', ''b'', ''a''}"

section \<open>Properties of the extractor\<close>

subsection \<open>The extractor never raises\<close>

lemma list_pop_nonempty: "p \<noteq> [] \<Longrightarrow> list_pop p = Inr (butlast p)"
  by (cases p) simp_all

lemma pop_braces_take: "pop_braces n p = Inr (take (length p - n) p)"
proof (induction n arbitrary: p)
  case 0
  then show ?case by simp
next
  case (Suc n)
  show ?case
  proof (cases "p = []")
    case True
    with Suc show ?thesis by simp
  next
    case False
    then show ?thesis
      by (simp add: list_pop_nonempty Suc butlast_conv_take)
  qed
qed

lemma process_line_detailed_total: "\<exists>st'. process_line_detailed line st = Inr st'"
  by (cases st)
    (simp add: process_line_detailed_def Let_def pop_braces_take
      split: option.splits prod.splits)

lemma lines_loop_detailed_total: "\<exists>st'. lines_loop_detailed lines st = Inr st'"
proof (induction lines arbitrary: st)
  case Nil
  then show ?case by simp
next
  case (Cons l ls)
  obtain st1 where "process_line_detailed l st = Inr st1"
    using process_line_detailed_total by blast
  with Cons show ?case by simp
qed

lemma extract_nested_keys_detailed_total:
  "\<exists>ks. extract_nested_keys_detailed text keys = Inr ks"
proof -
  obtain p ks where "lines_loop_detailed (split_newline text) ([], keys) = Inr (p, ks)"
    using lines_loop_detailed_total by (metis surj_pair)
  then show ?thesis by (simp add: extract_nested_keys_detailed_def)
qed

lemma extract_keys_from_ts_detailed_total:
  "\<exists>ks. extract_keys_from_ts_detailed content = Inr ks"
  by (simp add: extract_keys_from_ts_detailed_def extract_nested_keys_detailed_total
      split: option.splits)

subsection \<open>The strict script's extractor follows the other one step by step\<close>

lemma process_line_strict_detailed:
  "process_line_strict line (stack, p, ks) =
     (case process_line_detailed line (p, ks) of
        Inl e \<Rightarrow> Inl e
      | Inr (p', ks') \<Rightarrow> Inr (stack, p', ks'))"
  by (simp add: process_line_strict_def process_line_detailed_def Let_def pop_braces_take
      split: option.splits prod.splits)

lemma lines_loop_strict_detailed:
  "lines_loop_strict lines (stack, p, ks) =
     (case lines_loop_detailed lines (p, ks) of
        Inl e \<Rightarrow> Inl e
      | Inr (p', ks') \<Rightarrow> Inr (stack, p', ks'))"
proof (induction lines arbitrary: p ks)
  case Nil
  then show ?case by simp
next
  case (Cons l ls)
  obtain p1 ks1 where "process_line_detailed l (p, ks) = Inr (p1, ks1)"
    using process_line_detailed_total by (metis surj_pair)
  with Cons show ?case by (simp add: process_line_strict_detailed)
qed

lemma extract_strict_eq_detailed:
  "extract_keys_from_ts_strict content = extract_keys_from_ts_detailed content"
  by (simp add: extract_keys_from_ts_strict_def extract_keys_from_ts_detailed_def
      extract_nested_keys_strict_def extract_nested_keys_detailed_def
      lines_loop_strict_detailed
      split: option.splits sum.splits prod.splits)

subsection \<open>A line with a key is never skipped\<close>

lemma isword_not_isspace: "isword c \<Longrightarrow> \<not> isspace c"
  by (auto simp: isword_def isalnum_def isspace_def Let_def)

lemma isword_not_slash: "isword c \<Longrightarrow> c \<noteq> CHR ''/''"
  by (auto simp: isword_def isalnum_def Let_def)

lemma strip_Cons: "\<not> isspace c \<Longrightarrow> strip (c # cs) = c # rev (dropWhile isspace (rev cs))"
  by (simp add: strip_def dropWhile_append)

lemma strip_dropWhile: "strip (dropWhile isspace s) = strip s"
  by (simp add: strip_def)

lemma key_match_not_skipped:
  assumes "key_match line = Some (key_name, g2)"
  shows "strip line \<noteq> [] \<and> \<not> startswith (strip line) ''//''"
proof -
  from assms have ne: "takeWhile isword (dropWhile isspace line) \<noteq> []"
    by (simp add: key_match_def Let_def split: if_splits)
  then obtain c cs where r1: "dropWhile isspace line = c # cs" and w: "isword c"
    by (cases "dropWhile isspace line") (auto split: if_splits)
  from w have "\<not> isspace c" by (rule isword_not_isspace)
  then obtain cs' where "strip (c # cs) = c # cs'" using strip_Cons by blast
  with r1 have s: "strip line = c # cs'" using strip_dropWhile [of line] by simp
  from w have "c \<noteq> CHR ''/''" by (rule isword_not_slash)
  with s show ?thesis by (simp add: startswith_def)
qed

subsection \<open>Where the keys of the result come from\<close>

lemma process_line_detailed_keys:
  assumes "process_line_detailed line (p, ks) = Inr (p', ks')"
  shows "ks' = ks \<or> (\<exists>key_name g2. key_match line = Some (key_name, g2) \<and>
           \<not> startswith (strip g2) ''{'' \<and> ks' = insert (join ''.'' (p @ [key_name])) ks)"
  using assms
  by (auto simp: process_line_detailed_def Let_def pop_braces_take
      split: if_splits option.splits prod.splits)

lemma process_line_detailed_object:
  assumes km: "key_match line = Some (key_name, g2)" and ob: "startswith (strip g2) ''{''"
  shows "\<exists>p'. process_line_detailed line (p, ks) = Inr (p', ks)"
  using key_match_not_skipped [OF km] km ob
  by (simp add: process_line_detailed_def Let_def pop_braces_take)

lemma lines_loop_detailed_origin:
  assumes "lines_loop_detailed lines (p0, ks0) = Inr (p, ks)" and "k \<in> ks"
  shows "k \<in> ks0 \<or> (\<exists>i path ks1 key_name g2. i < length lines \<and>
           lines_loop_detailed (take i lines) (p0, ks0) = Inr (path, ks1) \<and>
           key_match (lines ! i) = Some (key_name, g2) \<and>
           \<not> startswith (strip g2) ''{'' \<and> k = join ''.'' (path @ [key_name]))"
  using assms
proof (induction lines arbitrary: p0 ks0)
  case Nil
  then show ?case by simp
next
  case (Cons l ls)
  obtain p1 ks1 where step: "process_line_detailed l (p0, ks0) = Inr (p1, ks1)"
    using process_line_detailed_total by (metis surj_pair)
  with Cons.prems have rest: "lines_loop_detailed ls (p1, ks1) = Inr (p, ks)" by simp
  from Cons.IH [OF rest \<open>k \<in> ks\<close>]
  consider (old) "k \<in> ks1"
    | (new) i path ks2 key_name g2 where "i < length ls"
        "lines_loop_detailed (take i ls) (p1, ks1) = Inr (path, ks2)"
        "key_match (ls ! i) = Some (key_name, g2)"
        "\<not> startswith (strip g2) ''{''" "k = join ''.'' (path @ [key_name])"
    by blast
  then show ?case
  proof cases
    case old
    from process_line_detailed_keys [OF step]
    show ?thesis
    proof
      assume "ks1 = ks0"
      with old show ?thesis by simp
    next
      assume "\<exists>key_name g2. key_match l = Some (key_name, g2) \<and>
           \<not> startswith (strip g2) ''{'' \<and> ks1 = insert (join ''.'' (p0 @ [key_name])) ks0"
      then obtain key_name g2 where km: "key_match l = Some (key_name, g2)"
        and lf: "\<not> startswith (strip g2) ''{''"
        and eq: "ks1 = insert (join ''.'' (p0 @ [key_name])) ks0" by blast
      show ?thesis
      proof (cases "k \<in> ks0")
        case True
        then show ?thesis by simp
      next
        case False
        with old eq have "k = join ''.'' (p0 @ [key_name])" by simp
        with km lf have "0 < length (l # ls) \<and>
           lines_loop_detailed (take 0 (l # ls)) (p0, ks0) = Inr (p0, ks0) \<and>
           key_match ((l # ls) ! 0) = Some (key_name, g2) \<and>
           \<not> startswith (strip g2) ''{'' \<and> k = join ''.'' (p0 @ [key_name])" by simp
        then show ?thesis by blast
      qed
    qed
  next
    case new
    with step have "Suc i < length (l # ls) \<and>
           lines_loop_detailed (take (Suc i) (l # ls)) (p0, ks0) = Inr (path, ks2) \<and>
           key_match ((l # ls) ! Suc i) = Some (key_name, g2) \<and>
           \<not> startswith (strip g2) ''{'' \<and> k = join ''.'' (path @ [key_name])" by simp
    then show ?thesis by blast
  qed
qed

lemma process_line_detailed_finite:
  "process_line_detailed line (p, ks) = Inr (p', ks') \<Longrightarrow> finite ks \<Longrightarrow> finite ks'"
  using process_line_detailed_keys by fastforce

lemma lines_loop_detailed_finite:
  "lines_loop_detailed lines (p, ks) = Inr (p', ks') \<Longrightarrow> finite ks \<Longrightarrow> finite ks'"
proof (induction lines arbitrary: p ks)
  case Nil
  then show ?case by simp
next
  case (Cons l ls)
  obtain p1 ks1 where step: "process_line_detailed l (p, ks) = Inr (p1, ks1)"
    using process_line_detailed_total by (metis surj_pair)
  with Cons.prems have "lines_loop_detailed ls (p1, ks1) = Inr (p', ks')" by simp
  moreover from step Cons.prems have "finite ks1"
    by (blast intro: process_line_detailed_finite)
  ultimately show ?case by (rule Cons.IH)
qed

lemma extract_keys_from_ts_detailed_finite:
  "extract_keys_from_ts_detailed content = Inr ks \<Longrightarrow> finite ks"
  by (auto simp: extract_keys_from_ts_detailed_def extract_nested_keys_detailed_def
      split: option.splits sum.splits prod.splits dest: lines_loop_detailed_finite)

subsection \<open>Evaluations on the scenario inputs\<close>

lemma scenario1_snippet_no_decl: "search_decl scenario1_snippet = None"
  by code_simp

lemma scenario1_file_keys:
  "extract_keys_from_ts_detailed scenario1_file = Inr {''greeting'', ''menu.file'', ''menu.edit''}"
  by code_simp

lemma placeholder_file_decl:
  "search_decl placeholder_file = Some (join ''\<newline>'' placeholder_lines)"
  by code_simp

lemma placeholder_split: "split_newline (join ''\<newline>'' placeholder_lines) = placeholder_lines"
  by code_simp

lemma placeholder_file_keys:
  "extract_keys_from_ts_detailed placeholder_file = Inr {''a.t'', ''b.c'', ''b''}"
  by code_simp

lemma repeated_key_file_decl:
  "search_decl repeated_key_file = Some (join ''\<newline>'' repeated_key_lines)"
  by code_simp

lemma repeated_key_split:
  "split_newline (join ''\<newline>'' repeated_key_lines) = repeated_key_lines"
  by code_simp

lemma repeated_key_file_keys:
  "extract_keys_from_ts_detailed repeated_key_file = Inr {''a''}"
  by code_simp

section \<open>Properties of the reports\<close>

subsection \<open>The loops over the five languages\<close>

lemma detail_loop_languages:
  assumes "all_keys ''de'' = Some de" "all_keys ''es'' = Some es"
    "all_keys ''fr'' = Some fr" "all_keys ''zh'' = Some zh"
  shows "detail_loop languages r all_keys =
     Inr (lang_section_detailed ''German'' ''de'' r de
        @ lang_section_detailed ''Spanish'' ''es'' r es
        @ lang_section_detailed ''French'' ''fr'' r fr
        @ lang_section_detailed ''Chinese'' ''zh'' r zh)"
  using assms by (simp add: languages_def)

lemma summary_loop_languages:
  assumes "all_keys ''de'' = Some de" "all_keys ''es'' = Some es"
    "all_keys ''fr'' = Some fr" "all_keys ''zh'' = Some zh"
  shows "summary_loop languages r all_keys t =
     Inr ([Summary_line (card (r - de) = 0) ''German'' ''de'' (card (r - de)),
           Summary_line (card (r - es) = 0) ''Spanish'' ''es'' (card (r - es)),
           Summary_line (card (r - fr) = 0) ''French'' ''fr'' (card (r - fr)),
           Summary_line (card (r - zh) = 0) ''Chinese'' ''zh'' (card (r - zh))],
          t + card (r - de) + card (r - es) + card (r - fr) + card (r - zh))"
  using assms by (simp add: languages_def Let_def)

lemma strict_loop_languages:
  assumes "all_keys ''de'' = Some de" "all_keys ''es'' = Some es"
    "all_keys ''fr'' = Some fr" "all_keys ''zh'' = Some zh"
  shows "\<exists>out. strict_loop languages r all_keys h =
     Inr (out, h \<or> de \<noteq> r \<or> es \<noteq> r \<or> fr \<noteq> r \<or> zh \<noteq> r)"
  using assms
  apply (simp add: languages_def Let_def lang_section_strict_def key_diff_def split: prod.splits)
  apply auto
  done

subsection \<open>The exit status of the two reports\<close>

lemma report_detailed_status:
  assumes de: "all_keys ''de'' = Some de" and es: "all_keys ''es'' = Some es"
    and fr: "all_keys ''fr'' = Some fr" and zh: "all_keys ''zh'' = Some zh"
    and r: "(case all_keys ''en'' of None \<Rightarrow> {} | Some ks \<Rightarrow> ks) = r"
  shows "\<exists>out. report_detailed all_keys =
     Inr (out, if card (r - de) + card (r - es) + card (r - fr) + card (r - zh) = 0
               then 0 else 1)"
  unfolding report_detailed_def r Let_def
    detail_loop_languages [OF de es fr zh] summary_loop_languages [OF de es fr zh]
  by simp

lemma total_missing_zero:
  assumes "finite r"
  shows "card (r - de) + card (r - es) + card (r - fr) + card (r - zh) = 0
         \<longleftrightarrow> r \<subseteq> de \<and> r \<subseteq> es \<and> r \<subseteq> fr \<and> r \<subseteq> zh"
proof -
  have "card (r - k) = 0 \<longleftrightarrow> r \<subseteq> k" for k
    using assms by simp
  then show ?thesis by simp
qed

lemma diff_union_extra: "x \<inter> r = {} \<Longrightarrow> r - (k \<union> x) = r - k"
  by blast

lemma report_detailed_extra:
  assumes de: "all_keys ''de'' = Some de" and es: "all_keys ''es'' = Some es"
    and fr: "all_keys ''fr'' = Some fr" and zh: "all_keys ''zh'' = Some zh"
    and r: "(case all_keys ''en'' of None \<Rightarrow> {} | Some ks \<Rightarrow> ks) = r"
    and x: "xde \<inter> r = {}" "xes \<inter> r = {}" "xfr \<inter> r = {}" "xzh \<inter> r = {}"
  shows "\<exists>out. report_detailed
               (all_keys(''de'' \<mapsto> de \<union> xde, ''es'' \<mapsto> es \<union> xes,
                         ''fr'' \<mapsto> fr \<union> xfr, ''zh'' \<mapsto> zh \<union> xzh)) =
     Inr (out, if card (r - de) + card (r - es) + card (r - fr) + card (r - zh) = 0
               then 0 else 1)"
proof -
  let ?ak = "all_keys(''de'' \<mapsto> de \<union> xde, ''es'' \<mapsto> es \<union> xes,
                         ''fr'' \<mapsto> fr \<union> xfr, ''zh'' \<mapsto> zh \<union> xzh)"
  have a: "?ak ''de'' = Some (de \<union> xde)" "?ak ''es'' = Some (es \<union> xes)"
      "?ak ''fr'' = Some (fr \<union> xfr)" "?ak ''zh'' = Some (zh \<union> xzh)"
    by simp_all
  have "?ak ''en'' = all_keys ''en''" by simp
  with r have en: "(case ?ak ''en'' of None \<Rightarrow> {} | Some ks \<Rightarrow> ks) = r" by simp
  from report_detailed_status [OF a en]
  show ?thesis by (simp only: diff_union_extra [OF x(1)] diff_union_extra [OF x(2)]
        diff_union_extra [OF x(3)] diff_union_extra [OF x(4)])
qed

lemma report_detailed_last:
  assumes de: "all_keys ''de'' = Some de" and es: "all_keys ''es'' = Some es"
    and fr: "all_keys ''fr'' = Some fr" and zh: "all_keys ''zh'' = Some zh"
    and r: "(case all_keys ''en'' of None \<Rightarrow> {} | Some ks \<Rightarrow> ks) = {}"
  shows "\<exists>out. report_detailed all_keys = Inr (out @ [All_complete], 0)"
proof -
  have "report_detailed all_keys =
     Inr (([Blank, Rule80, Blank] @
            (lang_section_detailed ''German'' ''de'' {} de
              @ lang_section_detailed ''Spanish'' ''es'' {} es
              @ lang_section_detailed ''French'' ''fr'' {} fr
              @ lang_section_detailed ''Chinese'' ''zh'' {} zh)
            @ [Summary_header, Dashes80]
            @ [Summary_line True ''German'' ''de'' 0, Summary_line True ''Spanish'' ''es'' 0,
               Summary_line True ''French'' ''fr'' 0, Summary_line True ''Chinese'' ''zh'' 0]
            @ [Blank]) @ [All_complete], 0)"
    unfolding report_detailed_def r Let_def
      detail_loop_languages [OF de es fr zh] summary_loop_languages [OF de es fr zh]
    by simp
  then show ?thesis by (rule exI)
qed

lemma report_strict_status:
  assumes de: "all_keys ''de'' = Some de" and es: "all_keys ''es'' = Some es"
    and fr: "all_keys ''fr'' = Some fr" and zh: "all_keys ''zh'' = Some zh"
    and r: "(case all_keys ''en'' of None \<Rightarrow> {} | Some ks \<Rightarrow> ks) = r"
  shows "\<exists>out. report_strict all_keys =
      Inr (out, if de \<noteq> r \<or> es \<noteq> r \<or> fr \<noteq> r \<or> zh \<noteq> r then 1 else 0)"
proof -
  from strict_loop_languages [OF de es fr zh, of r False]
  obtain out where
    "strict_loop languages r all_keys False =
       Inr (out, False \<or> de \<noteq> r \<or> es \<noteq> r \<or> fr \<noteq> r \<or> zh \<noteq> r)"
    by blast
  then show ?thesis
    unfolding report_strict_def r Let_def by simp
qed

lemma differs_iff: "k \<noteq> r \<longleftrightarrow> (r - k \<noteq> {} \<or> k - r \<noteq> {})" for k r :: "'a set"
  by blast

subsection \<open>Loading the key sets\<close>

lemma load_language_detailed_result:
  "\<exists>line ks. load_language_detailed fs code name = Inr (line, ks) \<and> finite ks
     \<and> (fs (locale_file code) = None \<longrightarrow> ks = {})
     \<and> (\<forall>content. fs (locale_file code) = Some content \<longrightarrow>
           extract_keys_from_ts_detailed content = Inr ks)"
proof (cases "fs (locale_file code)")
  case None
  then show ?thesis by (simp add: load_language_detailed_def)
next
  case (Some content)
  obtain ks where ks: "extract_keys_from_ts_detailed content = Inr ks"
    using extract_keys_from_ts_detailed_total by blast
  then have "finite ks" by (rule extract_keys_from_ts_detailed_finite)
  with Some ks show ?thesis by (simp add: load_language_detailed_def)
qed

lemma load_keys_detailed_languages:
  assumes en: "load_language_detailed fs ''en'' ''English'' = Inr (l0, en)"
    and de: "load_language_detailed fs ''de'' ''German'' = Inr (l1, de)"
    and es: "load_language_detailed fs ''es'' ''Spanish'' = Inr (l2, es)"
    and fr: "load_language_detailed fs ''fr'' ''French'' = Inr (l3, fr)"
    and zh: "load_language_detailed fs ''zh'' ''Chinese'' = Inr (l4, zh)"
  shows "load_keys_detailed fs languages Map.empty =
     Inr ([l0, l1, l2, l3, l4],
          [''en'' \<mapsto> en, ''de'' \<mapsto> de, ''es'' \<mapsto> es, ''fr'' \<mapsto> fr, ''zh'' \<mapsto> zh])"
  by (simp add: languages_def en de es fr zh)

subsection \<open>The exit status of main is the status of its report\<close>

lemma main_detailed_report:
  assumes "main_detailed fs = Inr (out, status)"
  shows "\<exists>out0 all_keys out'.
           load_keys_detailed fs languages Map.empty = Inr (out0, all_keys)
           \<and> report_detailed all_keys = Inr (out', status)"
  using assms by (auto simp: main_detailed_def split: sum.splits prod.splits)

lemma main_strict_report:
  assumes "main_strict fs = Inr (out, status)"
  shows "\<exists>out0 all_keys out'.
           load_keys_strict fs languages Map.empty = Inr (out0, all_keys)
           \<and> report_strict all_keys = Inr (out', status)"
  using assms by (auto simp: main_strict_def split: sum.splits prod.splits)

subsection \<open>Sorted listings\<close>

lemma map_enumerate_nth:
  "map (\<lambda>(i, key). f i key) (List.enumerate n xs)
     = map (\<lambda>i. f (n + i) (xs ! i)) [0..<length xs]"
  by (rule nth_equalityI) (simp_all add: nth_enumerate_eq)

lemma sorted_take_less:
  fixes xs :: "'a::linorder list"
  assumes "sorted xs" "distinct xs" "x \<in> set (take n xs)" "y \<in> set xs" "y \<notin> set (take n xs)"
  shows "x < y"
proof -
  have xs: "xs = take n xs @ drop n xs" by simp
  with assms(4,5) have y: "y \<in> set (drop n xs)"
    by (metis Un_iff set_append)
  from assms(1) xs have "sorted (take n xs @ drop n xs)" by simp
  then have "x \<le> y" using assms(3) y by (simp only: sorted_append)
  moreover have "x \<noteq> y" using assms(3,5) by blast
  ultimately show ?thesis by simp
qed

lemma missing_listing_detailed_sorted:
  assumes fin: "finite r"
  shows "\<exists>missing.
            missing_listing_detailed r lang_keys =
              (if missing = [] then [All_keys_present]
               else Missing_header (length missing)
                      # map (\<lambda>i. Missing_item (1 + i) (missing ! i)) [0..<length missing])
            \<and> sorted missing \<and> distinct missing \<and> set missing = r - lang_keys"
proof -
  let ?m = "sorted_list_of_set (r - lang_keys)"
  have "finite (r - lang_keys)" using fin by simp
  then have "sorted ?m \<and> distinct ?m \<and> set ?m = r - lang_keys" by simp
  moreover have "missing_listing_detailed r lang_keys =
              (if ?m = [] then [All_keys_present]
               else Missing_header (length ?m)
                      # map (\<lambda>i. Missing_item (1 + i) (?m ! i)) [0..<length ?m])"
    by (simp only: missing_listing_detailed_def Let_def map_enumerate_nth) simp
  ultimately show ?thesis by blast
qed

lemma truncated_listing_sorted:
  assumes fin: "finite ks"
  shows "\<exists>shown.
            truncated_listing item ks =
              map item shown @ (if card ks > 20 then [And_more (card ks - 20)] else [])
            \<and> length shown = min 20 (card ks)
            \<and> sorted shown \<and> distinct shown \<and> set shown \<subseteq> ks
            \<and> (\<forall>x \<in> set shown. \<forall>y \<in> ks - set shown. x < y)"
proof -
  let ?s = "sorted_list_of_set ks"
  let ?shown = "take 20 ?s"
  have s: "sorted ?s" "distinct ?s" "set ?s = ks" "length ?s = card ks"
    using fin by simp_all
  have 1: "truncated_listing item ks =
              map item ?shown @ (if card ks > 20 then [And_more (card ks - 20)] else [])"
    by (simp only: truncated_listing_def)
  have 2: "length ?shown = min 20 (card ks)" using s(4) by simp
  have 3: "sorted ?shown" using s(1) by (rule sorted_wrt_take)
  have 4: "distinct ?shown" using s(2) by (rule distinct_take)
  have 5: "set ?shown \<subseteq> ks" using s(3) set_take_subset [of 20 ?s] by simp
  have 6: "\<forall>x \<in> set ?shown. \<forall>y \<in> ks - set ?shown. x < y"
  proof (intro ballI)
    fix x y assume x: "x \<in> set ?shown" and "y \<in> ks - set ?shown"
    then have "y \<in> set ?s" "y \<notin> set ?shown" using s(3) by simp_all
    with s(1,2) x show "x < y" by (rule sorted_take_less)
  qed
  from 1 2 3 4 5 6 show ?thesis by (intro exI [of _ ?shown] conjI)
qed

lemma lang_section_strict_lines:
  "fst (lang_section_strict name code r lang_keys has_issues) =
     (if r - lang_keys = {} \<and> lang_keys - r = {} then [All_match name code]
      else [Dashes80, Inconsistencies name code, Dashes80]
             @ (if r - lang_keys = {} then []
                else Missing_in (card (r - lang_keys)) name
                       # truncated_listing Missing_key (r - lang_keys))
             @ (if lang_keys - r = {} then []
                else Extra_in (card (lang_keys - r)) name
                       # truncated_listing Extra_key (lang_keys - r))
             @ [Blank])"
  by (simp add: lang_section_strict_def key_diff_def)

lemma strict_loop_languages_lines:
  assumes "all_keys ''de'' = Some de" "all_keys ''es'' = Some es"
    "all_keys ''fr'' = Some fr" "all_keys ''zh'' = Some zh"
  shows "\<exists>h'. strict_loop languages r all_keys h =
     Inr (fst (lang_section_strict ''German'' ''de'' r de False)
          @ fst (lang_section_strict ''Spanish'' ''es'' r es False)
          @ fst (lang_section_strict ''French'' ''fr'' r fr False)
          @ fst (lang_section_strict ''Chinese'' ''zh'' r zh False), h')"
proof -
  have f: "fst (lang_section_strict n c r k b) = fst (lang_section_strict n c r k False)"
    for n c k b
    by (simp only: lang_section_strict_lines)
  obtain o1 h1 where 1: "lang_section_strict ''German'' ''de'' r de h = (o1, h1)"
    by (cases "lang_section_strict ''German'' ''de'' r de h")
  obtain o2 h2 where 2: "lang_section_strict ''Spanish'' ''es'' r es h1 = (o2, h2)"
    by (cases "lang_section_strict ''Spanish'' ''es'' r es h1")
  obtain o3 h3 where 3: "lang_section_strict ''French'' ''fr'' r fr h2 = (o3, h3)"
    by (cases "lang_section_strict ''French'' ''fr'' r fr h2")
  obtain o4 h4 where 4: "lang_section_strict ''Chinese'' ''zh'' r zh h3 = (o4, h4)"
    by (cases "lang_section_strict ''Chinese'' ''zh'' r zh h3")
  have "strict_loop languages r all_keys h = Inr (o1 @ o2 @ o3 @ o4, h4)"
    using assms by (simp add: languages_def 1 2 3 4)
  moreover have "o1 = fst (lang_section_strict ''German'' ''de'' r de False)"
    using f [of "''German''" "''de''" de h] 1 by simp
  moreover have "o2 = fst (lang_section_strict ''Spanish'' ''es'' r es False)"
    using f [of "''Spanish''" "''es''" es h1] 2 by simp
  moreover have "o3 = fst (lang_section_strict ''French'' ''fr'' r fr False)"
    using f [of "''French''" "''fr''" fr h2] 3 by simp
  moreover have "o4 = fst (lang_section_strict ''Chinese'' ''zh'' r zh False)"
    using f [of "''Chinese''" "''zh''" zh h3] 4 by simp
  ultimately show ?thesis by simp
qed

lemma report_strict_lines:
  assumes de: "all_keys ''de'' = Some de" and es: "all_keys ''es'' = Some es"
    and fr: "all_keys ''fr'' = Some fr" and zh: "all_keys ''zh'' = Some zh"
    and r: "(case all_keys ''en'' of None \<Rightarrow> {} | Some ks \<Rightarrow> ks) = r"
  shows "\<exists>tail status. report_strict all_keys =
     Inr ([Blank, Using_reference (card r), Blank]
          @ fst (lang_section_strict ''German'' ''de'' r de False)
          @ fst (lang_section_strict ''Spanish'' ''es'' r es False)
          @ fst (lang_section_strict ''French'' ''fr'' r fr False)
          @ fst (lang_section_strict ''Chinese'' ''zh'' r zh False)
          @ tail, status)"
proof -
  from strict_loop_languages_lines [OF de es fr zh, of r False]
  obtain h' where "strict_loop languages r all_keys False =
     Inr (fst (lang_section_strict ''German'' ''de'' r de False)
          @ fst (lang_section_strict ''Spanish'' ''es'' r es False)
          @ fst (lang_section_strict ''French'' ''fr'' r fr False)
          @ fst (lang_section_strict ''Chinese'' ''zh'' r zh False), h')" ..
  then show ?thesis
    unfolding report_strict_def r Let_def by (cases h') simp_all
qed

lemma report_detailed_lines:
  assumes de: "all_keys ''de'' = Some de" and es: "all_keys ''es'' = Some es"
    and fr: "all_keys ''fr'' = Some fr" and zh: "all_keys ''zh'' = Some zh"
    and r: "(case all_keys ''en'' of None \<Rightarrow> {} | Some ks \<Rightarrow> ks) = r"
  shows "\<exists>tail status. report_detailed all_keys =
     Inr ([Blank, Rule80, Blank]
          @ lang_section_detailed ''German'' ''de'' r de
          @ lang_section_detailed ''Spanish'' ''es'' r es
          @ lang_section_detailed ''French'' ''fr'' r fr
          @ lang_section_detailed ''Chinese'' ''zh'' r zh
          @ tail, status)"
  unfolding report_detailed_def r Let_def
    detail_loop_languages [OF de es fr zh] summary_loop_languages [OF de es fr zh]
  by simp

section \<open>The claims\<close>

text \<open>
  C1. Exhaustive mode, for every dictionary \<^verbatim>\<open>all_keys\<close> that holds the four
  languages other than English and every finite reference set \<open>r\<close> (the entry of
  English, or the empty set without one): the report returns, the exit status is 0 or 1,
  it is 0 exactly when the total of the missing counts is 0, which is exactly when every
  language holds every reference key, and adding keys that are not in the reference to
  the four languages leaves the exit status as it is. \<^const>\<open>main_detailed\<close> returns the
  status of the report on the dictionary that the first loop has filled.
\<close>

theorem detailed_exit_status:
  assumes de: "all_keys ''de'' = Some de" and es: "all_keys ''es'' = Some es"
    and fr: "all_keys ''fr'' = Some fr" and zh: "all_keys ''zh'' = Some zh"
    and r: "(case all_keys ''en'' of None \<Rightarrow> {} | Some ks \<Rightarrow> ks) = r"
    and fin: "finite r"
  shows "\<exists>out status. report_detailed all_keys = Inr (out, status)
     \<and> (status = 0 \<or> status = 1)
     \<and> (status = 0 \<longleftrightarrow>
          card (r - de) + card (r - es) + card (r - fr) + card (r - zh) = 0)
     \<and> (status = 0 \<longleftrightarrow> r \<subseteq> de \<and> r \<subseteq> es \<and> r \<subseteq> fr \<and> r \<subseteq> zh)
     \<and> (\<forall>xde xes xfr xzh.
           xde \<inter> r = {} \<and> xes \<inter> r = {} \<and> xfr \<inter> r = {} \<and> xzh \<inter> r = {} \<longrightarrow>
           (\<exists>out'. report_detailed
               (all_keys(''de'' \<mapsto> de \<union> xde, ''es'' \<mapsto> es \<union> xes,
                         ''fr'' \<mapsto> fr \<union> xfr, ''zh'' \<mapsto> zh \<union> xzh))
             = Inr (out', status)))"
proof -
  define total where "total = card (r - de) + card (r - es) + card (r - fr) + card (r - zh)"
  define status :: nat where "status = (if total = 0 then 0 else 1)"
  from report_detailed_status [OF de es fr zh r]
  obtain out where rep: "report_detailed all_keys = Inr (out, status)"
    unfolding status_def total_def by blast
  have bin: "status = 0 \<or> status = 1" by (simp add: status_def)
  have cnt: "status = 0 \<longleftrightarrow> total = 0" by (simp add: status_def)
  have sub: "status = 0 \<longleftrightarrow> r \<subseteq> de \<and> r \<subseteq> es \<and> r \<subseteq> fr \<and> r \<subseteq> zh"
    using total_missing_zero [OF fin, of de es fr zh] cnt by (simp add: total_def)
  have extra: "\<forall>xde xes xfr xzh.
           xde \<inter> r = {} \<and> xes \<inter> r = {} \<and> xfr \<inter> r = {} \<and> xzh \<inter> r = {} \<longrightarrow>
           (\<exists>out'. report_detailed
               (all_keys(''de'' \<mapsto> de \<union> xde, ''es'' \<mapsto> es \<union> xes,
                         ''fr'' \<mapsto> fr \<union> xfr, ''zh'' \<mapsto> zh \<union> xzh))
             = Inr (out', status))"
  proof (intro allI impI)
    fix xde xes xfr xzh :: "string set"
    assume x: "xde \<inter> r = {} \<and> xes \<inter> r = {} \<and> xfr \<inter> r = {} \<and> xzh \<inter> r = {}"
    then have x1: "xde \<inter> r = {}" and x2: "xes \<inter> r = {}"
      and x3: "xfr \<inter> r = {}" and x4: "xzh \<inter> r = {}" by simp_all
    from report_detailed_extra [OF de es fr zh r x1 x2 x3 x4]
    show "\<exists>out'. report_detailed
               (all_keys(''de'' \<mapsto> de \<union> xde, ''es'' \<mapsto> es \<union> xes,
                         ''fr'' \<mapsto> fr \<union> xfr, ''zh'' \<mapsto> zh \<union> xzh))
             = Inr (out', status)"
      unfolding status_def total_def .
  qed
  from rep bin cnt [unfolded total_def] sub extra
  have "report_detailed all_keys = Inr (out, status)
     \<and> (status = 0 \<or> status = 1)
     \<and> (status = 0 \<longleftrightarrow>
          card (r - de) + card (r - es) + card (r - fr) + card (r - zh) = 0)
     \<and> (status = 0 \<longleftrightarrow> r \<subseteq> de \<and> r \<subseteq> es \<and> r \<subseteq> fr \<and> r \<subseteq> zh)
     \<and> (\<forall>xde xes xfr xzh.
           xde \<inter> r = {} \<and> xes \<inter> r = {} \<and> xfr \<inter> r = {} \<and> xzh \<inter> r = {} \<longrightarrow>
           (\<exists>out'. report_detailed
               (all_keys(''de'' \<mapsto> de \<union> xde, ''es'' \<mapsto> es \<union> xes,
                         ''fr'' \<mapsto> fr \<union> xfr, ''zh'' \<mapsto> zh \<union> xzh))
             = Inr (out', status)))"
    by (intro conjI)
  then show ?thesis by (intro exI)
qed

theorem detailed_exit_status_witness:
  "finite {''a'', ''b''}
   \<and> (\<exists>out. report_detailed
         [''en'' \<mapsto> {''a'', ''b''}, ''de'' \<mapsto> {''a'', ''b'', ''x''}, ''es'' \<mapsto> {''a'', ''b''},
          ''fr'' \<mapsto> {''a'', ''b''}, ''zh'' \<mapsto> {''a'', ''b''}] = Inr (out, 0))
   \<and> (\<exists>out. report_detailed
         [''en'' \<mapsto> {''a'', ''b''}, ''de'' \<mapsto> {''a''}, ''es'' \<mapsto> {''a'', ''b''},
          ''fr'' \<mapsto> {''a'', ''b''}, ''zh'' \<mapsto> {}] = Inr (out, 1))"
proof -
  let ?ok = "[''en'' \<mapsto> {''a'', ''b''}, ''de'' \<mapsto> {''a'', ''b'', ''x''}, ''es'' \<mapsto> {''a'', ''b''},
          ''fr'' \<mapsto> {''a'', ''b''}, ''zh'' \<mapsto> {''a'', ''b''}]"
  let ?bad = "[''en'' \<mapsto> {''a'', ''b''}, ''de'' \<mapsto> {''a''}, ''es'' \<mapsto> {''a'', ''b''},
          ''fr'' \<mapsto> {''a'', ''b''}, ''zh'' \<mapsto> {}]"
  have fin: "finite {''a'', ''b''}" by simp
  have ok: "?ok ''de'' = Some {''a'', ''b'', ''x''}" "?ok ''es'' = Some {''a'', ''b''}"
    "?ok ''fr'' = Some {''a'', ''b''}" "?ok ''zh'' = Some {''a'', ''b''}"
    "(case ?ok ''en'' of None \<Rightarrow> {} | Some ks \<Rightarrow> ks) = {''a'', ''b''}"
    by simp_all
  have bad: "?bad ''de'' = Some {''a''}" "?bad ''es'' = Some {''a'', ''b''}"
    "?bad ''fr'' = Some {''a'', ''b''}" "?bad ''zh'' = Some {}"
    "(case ?bad ''en'' of None \<Rightarrow> {} | Some ks \<Rightarrow> ks) = {''a'', ''b''}"
    by simp_all
  from detailed_exit_status [OF ok fin]
  obtain out1 s1 where 1: "report_detailed ?ok = Inr (out1, s1)"
    and "s1 = 0 \<longleftrightarrow> {''a'', ''b''} \<subseteq> {''a'', ''b'', ''x''} \<and> {''a'', ''b''} \<subseteq> {''a'', ''b''}
           \<and> {''a'', ''b''} \<subseteq> {''a'', ''b''} \<and> {''a'', ''b''} \<subseteq> {''a'', ''b''}"
    by (elim exE conjE) (rule that)
  then have s1: "s1 = 0" by simp
  from detailed_exit_status [OF bad fin]
  obtain out2 s2 where 2: "report_detailed ?bad = Inr (out2, s2)"
    and "s2 = 0 \<or> s2 = 1"
    and "s2 = 0 \<longleftrightarrow> {''a'', ''b''} \<subseteq> {''a''} \<and> {''a'', ''b''} \<subseteq> {''a'', ''b''}
           \<and> {''a'', ''b''} \<subseteq> {''a'', ''b''} \<and> {''a'', ''b''} \<subseteq> {}"
    by (elim exE conjE) (rule that)
  then have s2: "s2 = 1" by simp
  from fin 1 2 show ?thesis unfolding s1 s2 by (intro conjI exI)
qed

text \<open>
  C2. Strict mode, for every dictionary \<^verbatim>\<open>all_keys\<close> that holds the four languages
  other than English: the report returns, the exit status is 0 or 1, and it is 1 exactly
  when some language has a missing key or an extra key with respect to the reference
  set \<open>r\<close>.
\<close>

theorem strict_exit_status:
  assumes de: "all_keys ''de'' = Some de" and es: "all_keys ''es'' = Some es"
    and fr: "all_keys ''fr'' = Some fr" and zh: "all_keys ''zh'' = Some zh"
    and r: "(case all_keys ''en'' of None \<Rightarrow> {} | Some ks \<Rightarrow> ks) = r"
  shows "\<exists>out status. report_strict all_keys = Inr (out, status)
     \<and> (status = 0 \<or> status = 1)
     \<and> (status = 1 \<longleftrightarrow>
          (r - de \<noteq> {} \<or> de - r \<noteq> {}) \<or> (r - es \<noteq> {} \<or> es - r \<noteq> {})
          \<or> (r - fr \<noteq> {} \<or> fr - r \<noteq> {}) \<or> (r - zh \<noteq> {} \<or> zh - r \<noteq> {}))"
proof -
  define status :: nat where
    "status = (if de \<noteq> r \<or> es \<noteq> r \<or> fr \<noteq> r \<or> zh \<noteq> r then 1 else 0)"
  from report_strict_status [OF de es fr zh r]
  obtain out where rep: "report_strict all_keys = Inr (out, status)"
    unfolding status_def by blast
  have bin: "status = 0 \<or> status = 1" by (simp add: status_def)
  have "status = 1 \<longleftrightarrow> de \<noteq> r \<or> es \<noteq> r \<or> fr \<noteq> r \<or> zh \<noteq> r"
    by (simp add: status_def)
  then have iff: "status = 1 \<longleftrightarrow>
          (r - de \<noteq> {} \<or> de - r \<noteq> {}) \<or> (r - es \<noteq> {} \<or> es - r \<noteq> {})
          \<or> (r - fr \<noteq> {} \<or> fr - r \<noteq> {}) \<or> (r - zh \<noteq> {} \<or> zh - r \<noteq> {})"
    by (simp only: differs_iff [of de r] differs_iff [of es r]
        differs_iff [of fr r] differs_iff [of zh r])
  from rep bin iff show ?thesis by (intro exI conjI)
qed

theorem strict_exit_status_witness:
  "(\<exists>out. report_strict
         [''en'' \<mapsto> {''a'', ''b''}, ''de'' \<mapsto> {''a'', ''b'', ''x''}, ''es'' \<mapsto> {''a'', ''b''},
          ''fr'' \<mapsto> {''a'', ''b''}, ''zh'' \<mapsto> {''a'', ''b''}] = Inr (out, 1))
   \<and> (\<exists>out. report_strict
         [''en'' \<mapsto> {''a'', ''b''}, ''de'' \<mapsto> {''a'', ''b''}, ''es'' \<mapsto> {''a'', ''b''},
          ''fr'' \<mapsto> {''a'', ''b''}, ''zh'' \<mapsto> {''a'', ''b''}] = Inr (out, 0))"
proof -
  let ?bad = "[''en'' \<mapsto> {''a'', ''b''}, ''de'' \<mapsto> {''a'', ''b'', ''x''}, ''es'' \<mapsto> {''a'', ''b''},
          ''fr'' \<mapsto> {''a'', ''b''}, ''zh'' \<mapsto> {''a'', ''b''}]"
  let ?ok = "[''en'' \<mapsto> {''a'', ''b''}, ''de'' \<mapsto> {''a'', ''b''}, ''es'' \<mapsto> {''a'', ''b''},
          ''fr'' \<mapsto> {''a'', ''b''}, ''zh'' \<mapsto> {''a'', ''b''}]"
  have bad: "?bad ''de'' = Some {''a'', ''b'', ''x''}" "?bad ''es'' = Some {''a'', ''b''}"
    "?bad ''fr'' = Some {''a'', ''b''}" "?bad ''zh'' = Some {''a'', ''b''}"
    "(case ?bad ''en'' of None \<Rightarrow> {} | Some ks \<Rightarrow> ks) = {''a'', ''b''}"
    by simp_all
  have ok: "?ok ''de'' = Some {''a'', ''b''}" "?ok ''es'' = Some {''a'', ''b''}"
    "?ok ''fr'' = Some {''a'', ''b''}" "?ok ''zh'' = Some {''a'', ''b''}"
    "(case ?ok ''en'' of None \<Rightarrow> {} | Some ks \<Rightarrow> ks) = {''a'', ''b''}"
    by simp_all
  from strict_exit_status [OF bad]
  obtain out1 s1 where 1: "report_strict ?bad = Inr (out1, s1)"
    and "s1 = 1 \<longleftrightarrow>
          ({''a'', ''b''} - {''a'', ''b'', ''x''} \<noteq> {} \<or> {''a'', ''b'', ''x''} - {''a'', ''b''} \<noteq> {})
          \<or> ({''a'', ''b''} - {''a'', ''b''} \<noteq> {} \<or> {''a'', ''b''} - {''a'', ''b''} \<noteq> {})
          \<or> ({''a'', ''b''} - {''a'', ''b''} \<noteq> {} \<or> {''a'', ''b''} - {''a'', ''b''} \<noteq> {})
          \<or> ({''a'', ''b''} - {''a'', ''b''} \<noteq> {} \<or> {''a'', ''b''} - {''a'', ''b''} \<noteq> {})"
    by (elim exE conjE) (rule that)
  then have s1: "s1 = 1" by simp
  from strict_exit_status [OF ok]
  obtain out2 s2 where 2: "report_strict ?ok = Inr (out2, s2)"
    and "s2 = 0 \<or> s2 = 1"
    and "s2 = 1 \<longleftrightarrow>
          ({''a'', ''b''} - {''a'', ''b''} \<noteq> {} \<or> {''a'', ''b''} - {''a'', ''b''} \<noteq> {})
          \<or> ({''a'', ''b''} - {''a'', ''b''} \<noteq> {} \<or> {''a'', ''b''} - {''a'', ''b''} \<noteq> {})
          \<or> ({''a'', ''b''} - {''a'', ''b''} \<noteq> {} \<or> {''a'', ''b''} - {''a'', ''b''} \<noteq> {})
          \<or> ({''a'', ''b''} - {''a'', ''b''} \<noteq> {} \<or> {''a'', ''b''} - {''a'', ''b''} \<noteq> {})"
    by (elim exE conjE) (rule that)
  then have s2: "s2 = 0" by simp
  from 1 2 show ?thesis unfolding s1 s2 by (intro conjI exI)
qed

text \<open>
  C3. The claim applies the extractor to a file that holds only the five lines of the
  first scenario. Such a file has no declaration \<^verbatim>\<open>export const ...: TranslationDict =\<close>,
  so the extractor returns the empty set. What holds: the walk over the lines,
  \<^verbatim>\<open>extract_nested_keys\<close>, yields greeting, menu.file and menu.edit on the five lines,
  and so does the extractor (of either script) on the file that declares them as the
  body of the dictionary.
\<close>

theorem scenario1_keys:
  "extract_nested_keys_detailed scenario1_snippet {}
     = Inr {''greeting'', ''menu.file'', ''menu.edit''}
   \<and> extract_keys_from_ts_detailed scenario1_file
     = Inr {''greeting'', ''menu.file'', ''menu.edit''}
   \<and> extract_keys_from_ts_strict scenario1_file
     = Inr {''greeting'', ''menu.file'', ''menu.edit''}"
proof -
  have "extract_nested_keys_detailed scenario1_snippet {}
     = Inr {''greeting'', ''menu.file'', ''menu.edit''}"
    by code_simp
  then show ?thesis
    by (simp add: scenario1_file_keys extract_strict_eq_detailed)
qed

theorem scenario1_bare_counterexample:
  "extract_keys_from_ts_detailed scenario1_snippet = Inr {}
   \<and> extract_keys_from_ts_detailed scenario1_snippet
     \<noteq> Inr {''greeting'', ''menu.file'', ''menu.edit''}"
  by (simp add: extract_keys_from_ts_detailed_def scenario1_snippet_no_decl)

text \<open>
  C4. A line that key_match matches, whose value part starts with an open brace and
  that holds exactly one close brace, leaves the nesting path (and the key set) as it
  was: the push of the key is undone by the one pop. The same holds in the strict script.
\<close>

theorem inline_object_keeps_path:
  assumes km: "key_match line = Some (key_name, g2)"
    and ob: "startswith (strip g2) ''{''"
    and cnt: "count_list line (CHR ''}'') = 1"
  shows "process_line_detailed line (p, ks) = Inr (p, ks)
         \<and> process_line_strict line (stack, p, ks) = Inr (stack, p, ks)"
proof -
  have "process_line_detailed line (p, ks) = Inr (p, ks)"
    using key_match_not_skipped [OF km] km ob cnt
    by (simp add: process_line_detailed_def Let_def pop_braces_take)
  then show ?thesis by (simp add: process_line_strict_detailed)
qed

theorem inline_object_keeps_path_witness:
  "key_match ''  menu: { file: 'File' },'' = Some (''menu'', ''{ file: 'File' },'')
   \<and> startswith (strip ''{ file: 'File' },'') ''{''
   \<and> count_list ''  menu: { file: 'File' },'' (CHR ''}'') = 1
   \<and> process_line_detailed ''  menu: { file: 'File' },'' ([''top''], {''greeting''})
       = Inr ([''top''], {''greeting''})
   \<and> process_line_strict ''  menu: { file: 'File' },'' ([], [''top''], {''greeting''})
       = Inr ([], [''top''], {''greeting''})"
proof -
  have km: "key_match ''  menu: { file: 'File' },'' = Some (''menu'', ''{ file: 'File' },'')"
    by code_simp
  have ob: "startswith (strip ''{ file: 'File' },'') ''{''"
    by code_simp
  have cnt: "count_list ''  menu: { file: 'File' },'' (CHR ''}'') = 1"
    by simp
  from inline_object_keeps_path [OF km ob cnt, of "[''top'']" "{''greeting''}" "[]"] km ob cnt
  show ?thesis by blast
qed

text \<open>
  C5. The claim says that the full key of a line whose value part starts with an open
  brace is never in the result. It can be: in \<^const>\<open>placeholder_file\<close> the close brace
  of the placeholder pops the path, the line that opens b is then read at the top level,
  and b is also a leaf at the top level; in \<^const>\<open>repeated_key_file\<close> the key a opens
  an object and is a leaf on a later line. What holds: a line whose value part starts with
  an open brace adds nothing to the set, and every key of the result is the full key of
  a line matched as a leaf assignment, under the path the walk has reached at that line.
\<close>

theorem keys_from_leaf_lines:
  "((extract_keys_from_ts_detailed content = Inr ks
      \<or> extract_keys_from_ts_strict content = Inr ks) \<and> k \<in> ks \<longrightarrow>
      (\<exists>obj_content i path ks1 key_name g2.
         search_decl content = Some obj_content \<and>
         i < length (split_newline obj_content) \<and>
         lines_loop_detailed (take i (split_newline obj_content)) ([], {}) = Inr (path, ks1) \<and>
         key_match (split_newline obj_content ! i) = Some (key_name, g2) \<and>
         \<not> startswith (strip g2) ''{'' \<and>
         k = join ''.'' (path @ [key_name])))
   \<and> (key_match line = Some (name, rest) \<and> startswith (strip rest) ''{'' \<longrightarrow>
        (\<exists>p'. process_line_detailed line (p, keys) = Inr (p', keys)))"
proof (intro conjI impI)
  assume a: "(extract_keys_from_ts_detailed content = Inr ks
      \<or> extract_keys_from_ts_strict content = Inr ks) \<and> k \<in> ks"
  then have ex: "extract_keys_from_ts_detailed content = Inr ks" and k: "k \<in> ks"
    by (auto simp: extract_strict_eq_detailed)
  from ex k obtain obj_content where sd: "search_decl content = Some obj_content"
    by (cases "search_decl content") (auto simp: extract_keys_from_ts_detailed_def)
  with ex obtain p where
    loop: "lines_loop_detailed (split_newline obj_content) ([], {}) = Inr (p, ks)"
    by (auto simp: extract_keys_from_ts_detailed_def extract_nested_keys_detailed_def
        split: sum.splits prod.splits)
  from lines_loop_detailed_origin [OF loop k] sd
  show "\<exists>obj_content i path ks1 key_name g2.
         search_decl content = Some obj_content \<and>
         i < length (split_newline obj_content) \<and>
         lines_loop_detailed (take i (split_newline obj_content)) ([], {}) = Inr (path, ks1) \<and>
         key_match (split_newline obj_content ! i) = Some (key_name, g2) \<and>
         \<not> startswith (strip g2) ''{'' \<and>
         k = join ''.'' (path @ [key_name])"
    by simp
next
  assume "key_match line = Some (name, rest) \<and> startswith (strip rest) ''{''"
  then show "\<exists>p'. process_line_detailed line (p, keys) = Inr (p', keys)"
    using process_line_detailed_object by blast
qed

theorem keys_from_leaf_lines_witness:
  "extract_keys_from_ts_detailed scenario1_file
     = Inr {''greeting'', ''menu.file'', ''menu.edit''}
   \<and> ''menu.file'' \<in> {''greeting'', ''menu.file'', ''menu.edit''}
   \<and> (\<exists>obj_content i path ks1 key_name g2.
         search_decl scenario1_file = Some obj_content \<and>
         i < length (split_newline obj_content) \<and>
         lines_loop_detailed (take i (split_newline obj_content)) ([], {}) = Inr (path, ks1) \<and>
         key_match (split_newline obj_content ! i) = Some (key_name, g2) \<and>
         \<not> startswith (strip g2) ''{'' \<and>
         ''menu.file'' = join ''.'' (path @ [key_name]))
   \<and> key_match ''menu: {'' = Some (''menu'', ''{'')
   \<and> startswith (strip ''{'') ''{''
   \<and> (\<exists>p'. process_line_detailed ''menu: {'' ([], {''greeting''}) = Inr (p', {''greeting''}))"
proof -
  have km: "key_match ''menu: {'' = Some (''menu'', ''{'')" by code_simp
  have ob: "startswith (strip ''{'') ''{''" by code_simp
  have mem: "''menu.file'' \<in> {''greeting'', ''menu.file'', ''menu.edit''}" by simp
  from keys_from_leaf_lines
         [of scenario1_file "{''greeting'', ''menu.file'', ''menu.edit''}" "''menu.file''"
             "''menu: {''" "''menu''" "''{''" "[]" "{''greeting''}"]
       scenario1_file_keys mem km ob
  show ?thesis by blast
qed

theorem object_key_in_result_counterexample:
  "extract_keys_from_ts_detailed placeholder_file = Inr {''a.t'', ''b.c'', ''b''}
   \<and> search_decl placeholder_file = Some (join ''\<newline>'' placeholder_lines)
   \<and> split_newline (join ''\<newline>'' placeholder_lines) = placeholder_lines
   \<and> lines_loop_detailed (take 3 placeholder_lines) ([], {}) = Inr ([], {''a.t''})
   \<and> placeholder_lines ! 3 = ''    b: {''
   \<and> key_match ''    b: {'' = Some (''b'', ''{'')
   \<and> startswith (strip ''{'') ''{''
   \<and> join ''.'' ([] @ [''b'']) = ''b''
   \<and> ''b'' \<in> {''a.t'', ''b.c'', ''b''}
   \<and> extract_keys_from_ts_detailed repeated_key_file = Inr {''a''}
   \<and> search_decl repeated_key_file = Some (join ''\<newline>'' repeated_key_lines)
   \<and> split_newline (join ''\<newline>'' repeated_key_lines) = repeated_key_lines
   \<and> lines_loop_detailed (take 1 repeated_key_lines) ([], {}) = Inr ([], {})
   \<and> repeated_key_lines ! 1 = ''  a: {''
   \<and> key_match ''  a: {'' = Some (''a'', ''{'')
   \<and> join ''.'' ([] @ [''a'']) = ''a''
   \<and> ''a'' \<in> {''a''}"
proof -
  have "lines_loop_detailed (take 1 repeated_key_lines) ([], {}) = Inr ([], {})"
    by code_simp
  moreover have "repeated_key_lines ! 1 = ''  a: {''"
    by (simp add: repeated_key_lines_def)
  moreover have "key_match ''  a: {'' = Some (''a'', ''{'')" by code_simp
  ultimately have rep:
    "extract_keys_from_ts_detailed repeated_key_file = Inr {''a''}
     \<and> search_decl repeated_key_file = Some (join ''\<newline>'' repeated_key_lines)
     \<and> split_newline (join ''\<newline>'' repeated_key_lines) = repeated_key_lines
     \<and> lines_loop_detailed (take 1 repeated_key_lines) ([], {}) = Inr ([], {})
     \<and> repeated_key_lines ! 1 = ''  a: {''
     \<and> key_match ''  a: {'' = Some (''a'', ''{'')
     \<and> join ''.'' ([] @ [''a'']) = ''a''
     \<and> ''a'' \<in> {''a''}"
    by (simp add: repeated_key_file_keys repeated_key_file_decl repeated_key_split)
  have "lines_loop_detailed (take 3 placeholder_lines) ([], {}) = Inr ([], {''a.t''})"
    by code_simp
  moreover have "placeholder_lines ! 3 = ''    b: {''"
    by (simp add: placeholder_lines_def)
  moreover have "key_match ''    b: {'' = Some (''b'', ''{'')" by code_simp
  moreover have "startswith (strip ''{'') ''{''" by code_simp
  ultimately show ?thesis
    using rep by (simp add: placeholder_file_keys placeholder_file_decl placeholder_split)
qed

text \<open>
  C6. The extractor of either script returns a set for every content and raises nothing;
  without a match of the declaration pattern the set is empty. Every step on a line
  returns a state, and the pops of a line return a path for every number of close
  braces and every path, the empty one too.
\<close>

theorem extractor_total:
  "(\<exists>ks. extract_keys_from_ts_detailed content = Inr ks)
   \<and> (\<exists>ks. extract_keys_from_ts_strict content = Inr ks)
   \<and> (search_decl content = None \<longrightarrow> extract_keys_from_ts_detailed content = Inr {})
   \<and> (\<exists>st'. process_line_detailed line st = Inr st')
   \<and> (\<exists>p. pop_braces n path = Inr p)
   \<and> (\<exists>p. pop_braces n [] = Inr p)"
proof (intro conjI impI)
  show "\<exists>ks. extract_keys_from_ts_detailed content = Inr ks"
    by (rule extract_keys_from_ts_detailed_total)
  then show "\<exists>ks. extract_keys_from_ts_strict content = Inr ks"
    by (simp add: extract_strict_eq_detailed)
  show "\<exists>st'. process_line_detailed line st = Inr st'"
    by (rule process_line_detailed_total)
  show "\<exists>p. pop_braces n path = Inr p" and "\<exists>p. pop_braces n [] = Inr p"
    by (simp_all add: pop_braces_take)
next
  assume "search_decl content = None"
  then show "extract_keys_from_ts_detailed content = Inr {}"
    by (simp add: extract_keys_from_ts_detailed_def)
qed

theorem extractor_total_witness:
  "search_decl scenario1_snippet = None
   \<and> extract_keys_from_ts_detailed scenario1_snippet = Inr {}
   \<and> (\<exists>ks. extract_keys_from_ts_detailed scenario1_file = Inr ks)
   \<and> (\<exists>p. pop_braces 2 [''menu''] = Inr p)"
  using extractor_total [of scenario1_snippet "''}''" "([], {})" 2 "[''menu'']"]
    extractor_total [of scenario1_file "''}''" "([], {})" 2 "[''menu'']"]
    scenario1_snippet_no_decl
  by blast

text \<open>
  C7. The two differences of a key set with itself are empty. A language whose key set
  is the reference set is reported by the strict script as matching, with
  \<^verbatim>\<open>has_issues\<close> unchanged, and by the exhaustive script with all keys present and
  a missing count of 0.
\<close>

theorem diff_with_itself:
  "key_diff S S = ({}, {})
   \<and> lang_section_strict name code S S has_issues = ([All_match name code], has_issues)
   \<and> missing_listing_detailed S S = [All_keys_present]
   \<and> card (S - S) = 0"
  by (simp add: key_diff_def lang_section_strict_def missing_listing_detailed_def)

theorem diff_with_itself_witness:
  "key_diff {''greeting''} {''greeting''} = ({}, {})
   \<and> lang_section_strict ''German'' ''de'' {''greeting''} {''greeting''} False
       = ([All_match ''German'' ''de''], False)
   \<and> missing_listing_detailed {''greeting''} {''greeting''} = [All_keys_present]
   \<and> card ({''greeting''} - {''greeting''}) = 0"
  by (rule diff_with_itself)

text \<open>
  C8. When the English file does not exist, or its extraction is the empty set, the
  exhaustive script returns exit status 0 and the last line it prints is the message
  that all languages are complete and consistent, whatever the other four files hold.
\<close>

theorem missing_reference_passes:
  assumes "fs (locale_file ''en'') = None
           \<or> (\<exists>content. fs (locale_file ''en'') = Some content
                \<and> extract_keys_from_ts_detailed content = Inr {})"
  shows "\<exists>out. main_detailed fs = Inr (out, 0) \<and> last out = All_complete
           \<and> All_complete \<in> set out"
proof -
  obtain l0 en where en: "load_language_detailed fs ''en'' ''English'' = Inr (l0, en)"
    and en_none: "fs (locale_file ''en'') = None \<longrightarrow> en = {}"
    and en_some: "\<forall>content. fs (locale_file ''en'') = Some content \<longrightarrow>
           extract_keys_from_ts_detailed content = Inr en"
    using load_language_detailed_result [of fs "''en''" "''English''"]
    by (elim exE conjE) (rule that)
  from assms en_none en_some have empty: "en = {}" by auto
  obtain l1 de where de: "load_language_detailed fs ''de'' ''German'' = Inr (l1, de)"
    using load_language_detailed_result [of fs "''de''" "''German''"] by blast
  obtain l2 es where es: "load_language_detailed fs ''es'' ''Spanish'' = Inr (l2, es)"
    using load_language_detailed_result [of fs "''es''" "''Spanish''"] by blast
  obtain l3 fr where fr: "load_language_detailed fs ''fr'' ''French'' = Inr (l3, fr)"
    using load_language_detailed_result [of fs "''fr''" "''French''"] by blast
  obtain l4 zh where zh: "load_language_detailed fs ''zh'' ''Chinese'' = Inr (l4, zh)"
    using load_language_detailed_result [of fs "''zh''" "''Chinese''"] by blast
  let ?ak = "[''en'' \<mapsto> en, ''de'' \<mapsto> de, ''es'' \<mapsto> es, ''fr'' \<mapsto> fr, ''zh'' \<mapsto> zh]"
  have load: "load_keys_detailed fs languages Map.empty = Inr ([l0, l1, l2, l3, l4], ?ak)"
    by (rule load_keys_detailed_languages [OF en de es fr zh])
  have a: "?ak ''de'' = Some de" "?ak ''es'' = Some es" "?ak ''fr'' = Some fr"
    "?ak ''zh'' = Some zh"
    by simp_all
  have r: "(case ?ak ''en'' of None \<Rightarrow> {} | Some ks \<Rightarrow> ks) = {}"
    using empty by simp
  from report_detailed_last [OF a r]
  obtain out where "report_detailed ?ak = Inr (out @ [All_complete], 0)" ..
  with load have "main_detailed fs =
     Inr (([Rule80, Title_detailed, Rule80, Blank] @ [l0, l1, l2, l3, l4] @ out)
            @ [All_complete], 0)"
    by (simp add: main_detailed_def)
  then show ?thesis by (metis last_snoc in_set_conv_decomp)
qed

theorem missing_reference_passes_witness:
  "Map.empty (locale_file ''en'') = (None :: string option)
   \<and> (\<exists>out. main_detailed Map.empty = Inr (out, 0) \<and> last out = All_complete
           \<and> All_complete \<in> set out)"
proof -
  have none: "Map.empty (locale_file ''en'') = (None :: string option)" by simp
  then have "Map.empty (locale_file ''en'') = (None :: string option)
           \<or> (\<exists>content. Map.empty (locale_file ''en'') = Some content
                \<and> extract_keys_from_ts_detailed content = Inr {})"
    by (rule disjI1)
  from none missing_reference_passes [OF this] show ?thesis by (rule conjI)
qed

text \<open>
  C9. The extractors of the two scripts return the same result on every content: the
  count of open braces, the empty stack and the unused pattern of the strict script
  change nothing.
\<close>

theorem extractors_agree:
  "extract_keys_from_ts_strict content = extract_keys_from_ts_detailed content"
  by (rule extract_strict_eq_detailed)

theorem extractors_agree_witness:
  "extract_keys_from_ts_strict scenario1_file = extract_keys_from_ts_detailed scenario1_file
   \<and> extract_keys_from_ts_strict scenario1_file
       = Inr {''greeting'', ''menu.file'', ''menu.edit''}"
  using extractors_agree [of scenario1_file] scenario1_file_keys by simp

text \<open>
  C10. The listings follow the order of the keys as strings. The report of the
  exhaustive script holds, in the order of the languages, the section of each of the
  four languages, and the items of a section are the missing keys of the language in
  ascending order without repetition, numbered from 1. The report of the strict script
  holds the section of each of the four languages, and a section with inconsistencies
  lists the missing set and then the extra set: of each the first 20 keys of its
  ascending list, or all of them when there are fewer, so that every printed key is
  smaller than every key of the set that is not printed, followed by the count of the
  rest when the set has more than 20 keys.
\<close>

theorem listings_sorted:
  assumes de: "all_keys ''de'' = Some de" and es: "all_keys ''es'' = Some es"
    and fr: "all_keys ''fr'' = Some fr" and zh: "all_keys ''zh'' = Some zh"
    and r: "(case all_keys ''en'' of None \<Rightarrow> {} | Some ks \<Rightarrow> ks) = r"
    and fin: "finite r" and fin_lang: "finite lang_keys"
  shows "(\<exists>tail status. report_detailed all_keys =
            Inr ([Blank, Rule80, Blank]
                 @ lang_section_detailed ''German'' ''de'' r de
                 @ lang_section_detailed ''Spanish'' ''es'' r es
                 @ lang_section_detailed ''French'' ''fr'' r fr
                 @ lang_section_detailed ''Chinese'' ''zh'' r zh
                 @ tail, status))
       \<and> (\<exists>tail status. report_strict all_keys =
            Inr ([Blank, Using_reference (card r), Blank]
                 @ fst (lang_section_strict ''German'' ''de'' r de False)
                 @ fst (lang_section_strict ''Spanish'' ''es'' r es False)
                 @ fst (lang_section_strict ''French'' ''fr'' r fr False)
                 @ fst (lang_section_strict ''Chinese'' ''zh'' r zh False)
                 @ tail, status))
       \<and> (\<exists>missing.
            lang_section_detailed name code r lang_keys =
              [Lang_header name code, Dashes80]
                @ (if missing = [] then [All_keys_present]
                   else Missing_header (length missing)
                          # map (\<lambda>i. Missing_item (1 + i) (missing ! i)) [0..<length missing])
                @ [Blank, Rule80, Blank]
            \<and> sorted missing \<and> distinct missing \<and> set missing = r - lang_keys)
       \<and> (\<exists>shown_missing shown_extra.
            fst (lang_section_strict name code r lang_keys has_issues) =
              (if r - lang_keys = {} \<and> lang_keys - r = {} then [All_match name code]
               else [Dashes80, Inconsistencies name code, Dashes80]
                      @ (if r - lang_keys = {} then []
                         else Missing_in (card (r - lang_keys)) name
                                # map Missing_key shown_missing
                                @ (if card (r - lang_keys) > 20
                                   then [And_more (card (r - lang_keys) - 20)] else []))
                      @ (if lang_keys - r = {} then []
                         else Extra_in (card (lang_keys - r)) name
                                # map Extra_key shown_extra
                                @ (if card (lang_keys - r) > 20
                                   then [And_more (card (lang_keys - r) - 20)] else []))
                      @ [Blank])
            \<and> length shown_missing = min 20 (card (r - lang_keys))
            \<and> sorted shown_missing \<and> distinct shown_missing
            \<and> set shown_missing \<subseteq> r - lang_keys
            \<and> (\<forall>x \<in> set shown_missing. \<forall>y \<in> (r - lang_keys) - set shown_missing. x < y)
            \<and> length shown_extra = min 20 (card (lang_keys - r))
            \<and> sorted shown_extra \<and> distinct shown_extra
            \<and> set shown_extra \<subseteq> lang_keys - r
            \<and> (\<forall>x \<in> set shown_extra. \<forall>y \<in> (lang_keys - r) - set shown_extra. x < y))"
proof (intro conjI)
  show "\<exists>tail status. report_detailed all_keys =
            Inr ([Blank, Rule80, Blank]
                 @ lang_section_detailed ''German'' ''de'' r de
                 @ lang_section_detailed ''Spanish'' ''es'' r es
                 @ lang_section_detailed ''French'' ''fr'' r fr
                 @ lang_section_detailed ''Chinese'' ''zh'' r zh
                 @ tail, status)"
    by (rule report_detailed_lines [OF de es fr zh r])
  show "\<exists>tail status. report_strict all_keys =
            Inr ([Blank, Using_reference (card r), Blank]
                 @ fst (lang_section_strict ''German'' ''de'' r de False)
                 @ fst (lang_section_strict ''Spanish'' ''es'' r es False)
                 @ fst (lang_section_strict ''French'' ''fr'' r fr False)
                 @ fst (lang_section_strict ''Chinese'' ''zh'' r zh False)
                 @ tail, status)"
    by (rule report_strict_lines [OF de es fr zh r])
  from missing_listing_detailed_sorted [OF fin, of lang_keys]
  obtain missing where m: "missing_listing_detailed r lang_keys =
              (if missing = [] then [All_keys_present]
               else Missing_header (length missing)
                      # map (\<lambda>i. Missing_item (1 + i) (missing ! i)) [0..<length missing])"
    and ms: "sorted missing" "distinct missing" "set missing = r - lang_keys"
    by (elim exE conjE) (rule that)
  have "lang_section_detailed name code r lang_keys =
              [Lang_header name code, Dashes80]
                @ (if missing = [] then [All_keys_present]
                   else Missing_header (length missing)
                          # map (\<lambda>i. Missing_item (1 + i) (missing ! i)) [0..<length missing])
                @ [Blank, Rule80, Blank]"
    by (simp only: lang_section_detailed_def m)
  with ms show "\<exists>missing.
            lang_section_detailed name code r lang_keys =
              [Lang_header name code, Dashes80]
                @ (if missing = [] then [All_keys_present]
                   else Missing_header (length missing)
                          # map (\<lambda>i. Missing_item (1 + i) (missing ! i)) [0..<length missing])
                @ [Blank, Rule80, Blank]
            \<and> sorted missing \<and> distinct missing \<and> set missing = r - lang_keys"
    by (intro exI [of _ missing] conjI)
  have fm: "finite (r - lang_keys)" using fin by simp
  have fe: "finite (lang_keys - r)" using fin_lang by simp
  from truncated_listing_sorted [OF fm, of Missing_key]
  obtain sm where sm: "truncated_listing Missing_key (r - lang_keys) =
              map Missing_key sm
                @ (if card (r - lang_keys) > 20 then [And_more (card (r - lang_keys) - 20)] else [])"
    and sm_props: "length sm = min 20 (card (r - lang_keys))" "sorted sm" "distinct sm"
      "set sm \<subseteq> r - lang_keys" "\<forall>x \<in> set sm. \<forall>y \<in> (r - lang_keys) - set sm. x < y"
    by (elim exE conjE) (rule that)
  from truncated_listing_sorted [OF fe, of Extra_key]
  obtain se where se: "truncated_listing Extra_key (lang_keys - r) =
              map Extra_key se
                @ (if card (lang_keys - r) > 20 then [And_more (card (lang_keys - r) - 20)] else [])"
    and se_props: "length se = min 20 (card (lang_keys - r))" "sorted se" "distinct se"
      "set se \<subseteq> lang_keys - r" "\<forall>x \<in> set se. \<forall>y \<in> (lang_keys - r) - set se. x < y"
    by (elim exE conjE) (rule that)
  have "fst (lang_section_strict name code r lang_keys has_issues) =
              (if r - lang_keys = {} \<and> lang_keys - r = {} then [All_match name code]
               else [Dashes80, Inconsistencies name code, Dashes80]
                      @ (if r - lang_keys = {} then []
                         else Missing_in (card (r - lang_keys)) name
                                # map Missing_key sm
                                @ (if card (r - lang_keys) > 20
                                   then [And_more (card (r - lang_keys) - 20)] else []))
                      @ (if lang_keys - r = {} then []
                         else Extra_in (card (lang_keys - r)) name
                                # map Extra_key se
                                @ (if card (lang_keys - r) > 20
                                   then [And_more (card (lang_keys - r) - 20)] else []))
                      @ [Blank])"
    by (simp only: lang_section_strict_lines sm se)
  with sm_props se_props show "\<exists>shown_missing shown_extra.
            fst (lang_section_strict name code r lang_keys has_issues) =
              (if r - lang_keys = {} \<and> lang_keys - r = {} then [All_match name code]
               else [Dashes80, Inconsistencies name code, Dashes80]
                      @ (if r - lang_keys = {} then []
                         else Missing_in (card (r - lang_keys)) name
                                # map Missing_key shown_missing
                                @ (if card (r - lang_keys) > 20
                                   then [And_more (card (r - lang_keys) - 20)] else []))
                      @ (if lang_keys - r = {} then []
                         else Extra_in (card (lang_keys - r)) name
                                # map Extra_key shown_extra
                                @ (if card (lang_keys - r) > 20
                                   then [And_more (card (lang_keys - r) - 20)] else []))
                      @ [Blank])
            \<and> length shown_missing = min 20 (card (r - lang_keys))
            \<and> sorted shown_missing \<and> distinct shown_missing
            \<and> set shown_missing \<subseteq> r - lang_keys
            \<and> (\<forall>x \<in> set shown_missing. \<forall>y \<in> (r - lang_keys) - set shown_missing. x < y)
            \<and> length shown_extra = min 20 (card (lang_keys - r))
            \<and> sorted shown_extra \<and> distinct shown_extra
            \<and> set shown_extra \<subseteq> lang_keys - r
            \<and> (\<forall>x \<in> set shown_extra. \<forall>y \<in> (lang_keys - r) - set shown_extra. x < y)"
    by (intro exI [of _ sm] exI [of _ se] conjI)
qed

theorem listings_sorted_witness:
  "finite many_keys \<and> finite {''zz''}
   \<and> (\<exists>tail status. report_strict
          [''en'' \<mapsto> many_keys, ''de'' \<mapsto> {''zz''}, ''es'' \<mapsto> many_keys,
           ''fr'' \<mapsto> many_keys, ''zh'' \<mapsto> many_keys] =
            Inr ([Blank, Using_reference (card many_keys), Blank]
                 @ fst (lang_section_strict ''German'' ''de'' many_keys {''zz''} False)
                 @ fst (lang_section_strict ''Spanish'' ''es'' many_keys many_keys False)
                 @ fst (lang_section_strict ''French'' ''fr'' many_keys many_keys False)
                 @ fst (lang_section_strict ''Chinese'' ''zh'' many_keys many_keys False)
                 @ tail, status))
   \<and> (\<exists>tail status. report_detailed
          [''en'' \<mapsto> many_keys, ''de'' \<mapsto> {''zz''}, ''es'' \<mapsto> many_keys,
           ''fr'' \<mapsto> many_keys, ''zh'' \<mapsto> many_keys] =
            Inr ([Blank, Rule80, Blank]
                 @ lang_section_detailed ''German'' ''de'' many_keys {''zz''}
                 @ lang_section_detailed ''Spanish'' ''es'' many_keys many_keys
                 @ lang_section_detailed ''French'' ''fr'' many_keys many_keys
                 @ lang_section_detailed ''Chinese'' ''zh'' many_keys many_keys
                 @ tail, status))
   \<and> fst (lang_section_strict ''German'' ''de'' many_keys {''zz''} False) =
        [Dashes80, Inconsistencies ''German'' ''de'', Dashes80, Missing_in 22 ''German'',
         Missing_key ''a'', Missing_key ''b'', Missing_key ''c'', Missing_key ''d'', Missing_key ''e'',
         Missing_key ''f'', Missing_key ''g'', Missing_key ''h'', Missing_key ''i'', Missing_key ''j'',
         Missing_key ''k'', Missing_key ''l'', Missing_key ''m'', Missing_key ''n'', Missing_key ''o'',
         Missing_key ''p'', Missing_key ''q'', Missing_key ''r'', Missing_key ''s'', Missing_key ''t'',
         And_more 2, Extra_in 1 ''German'', Extra_key ''zz'', Blank]
   \<and> lang_section_detailed ''German'' ''de'' many_keys {''zz''} =
        [Lang_header ''German'' ''de'', Dashes80, Missing_header 22,
         Missing_item 1 ''a'', Missing_item 2 ''b'', Missing_item 3 ''c'', Missing_item 4 ''d'',
         Missing_item 5 ''e'', Missing_item 6 ''f'', Missing_item 7 ''g'', Missing_item 8 ''h'',
         Missing_item 9 ''i'', Missing_item 10 ''j'', Missing_item 11 ''k'', Missing_item 12 ''l'',
         Missing_item 13 ''m'', Missing_item 14 ''n'', Missing_item 15 ''o'', Missing_item 16 ''p'',
         Missing_item 17 ''q'', Missing_item 18 ''r'', Missing_item 19 ''s'', Missing_item 20 ''t'',
         Missing_item 21 ''u'', Missing_item 22 ''v'',
         Blank, Rule80, Blank]"
proof -
  let ?ak = "[''en'' \<mapsto> many_keys, ''de'' \<mapsto> {''zz''}, ''es'' \<mapsto> many_keys,
           ''fr'' \<mapsto> many_keys, ''zh'' \<mapsto> many_keys]"
  have fin: "finite many_keys" by (simp add: many_keys_def)
  have fin_lang: "finite {''zz''}" by simp
  have ak: "?ak ''de'' = Some {''zz''}" "?ak ''es'' = Some many_keys"
    "?ak ''fr'' = Some many_keys" "?ak ''zh'' = Some many_keys"
    "(case ?ak ''en'' of None \<Rightarrow> {} | Some ks \<Rightarrow> ks) = many_keys"
    by simp_all
  have e1: "fst (lang_section_strict ''German'' ''de'' many_keys {''zz''} False) =
        [Dashes80, Inconsistencies ''German'' ''de'', Dashes80, Missing_in 22 ''German'',
         Missing_key ''a'', Missing_key ''b'', Missing_key ''c'', Missing_key ''d'', Missing_key ''e'',
         Missing_key ''f'', Missing_key ''g'', Missing_key ''h'', Missing_key ''i'', Missing_key ''j'',
         Missing_key ''k'', Missing_key ''l'', Missing_key ''m'', Missing_key ''n'', Missing_key ''o'',
         Missing_key ''p'', Missing_key ''q'', Missing_key ''r'', Missing_key ''s'', Missing_key ''t'',
         And_more 2, Extra_in 1 ''German'', Extra_key ''zz'', Blank]"
    by code_simp
  have e2: "lang_section_detailed ''German'' ''de'' many_keys {''zz''} =
        [Lang_header ''German'' ''de'', Dashes80, Missing_header 22,
         Missing_item 1 ''a'', Missing_item 2 ''b'', Missing_item 3 ''c'', Missing_item 4 ''d'',
         Missing_item 5 ''e'', Missing_item 6 ''f'', Missing_item 7 ''g'', Missing_item 8 ''h'',
         Missing_item 9 ''i'', Missing_item 10 ''j'', Missing_item 11 ''k'', Missing_item 12 ''l'',
         Missing_item 13 ''m'', Missing_item 14 ''n'', Missing_item 15 ''o'', Missing_item 16 ''p'',
         Missing_item 17 ''q'', Missing_item 18 ''r'', Missing_item 19 ''s'', Missing_item 20 ''t'',
         Missing_item 21 ''u'', Missing_item 22 ''v'',
         Blank, Rule80, Blank]"
    by code_simp
  note inst = listings_sorted [OF ak fin fin_lang, of "''German''" "''de''" False]
  from inst have d: "\<exists>tail status. report_detailed ?ak =
            Inr ([Blank, Rule80, Blank]
                 @ lang_section_detailed ''German'' ''de'' many_keys {''zz''}
                 @ lang_section_detailed ''Spanish'' ''es'' many_keys many_keys
                 @ lang_section_detailed ''French'' ''fr'' many_keys many_keys
                 @ lang_section_detailed ''Chinese'' ''zh'' many_keys many_keys
                 @ tail, status)"
    by (rule conjunct1)
  from inst have s: "\<exists>tail status. report_strict ?ak =
            Inr ([Blank, Using_reference (card many_keys), Blank]
                 @ fst (lang_section_strict ''German'' ''de'' many_keys {''zz''} False)
                 @ fst (lang_section_strict ''Spanish'' ''es'' many_keys many_keys False)
                 @ fst (lang_section_strict ''French'' ''fr'' many_keys many_keys False)
                 @ fst (lang_section_strict ''Chinese'' ''zh'' many_keys many_keys False)
                 @ tail, status)"
    by (elim conjE)
  from fin fin_lang s d e1 e2 show ?thesis by (intro conjI)
qed

end
